theory Spec2Isabelle
  imports Main "HOL-Library.Sublist" "HOL-Library.AList"
begin

section \<open>Strings\<close>

text \<open>
  \<open>gd::String\<close> is modelled as \<open>string\<close>. Two of its member functions are used by the
  code under verification but are defined elsewhere in the repository (GDCore/String).
\<close>

text \<open>
  Modelled from the spec: \<open>gd::String::find\<close> (GDCore/String, a wrapper around
  \<open>std::string::find\<close>) is not part of the verified sources. The spec speaks of
  "substring-match"; the model returns the index of the first occurrence of the pattern,
  and \<open>None\<close> stands for \<open>gd::String::npos\<close>.
\<close>

fun String_find :: "string \<Rightarrow> string \<Rightarrow> nat option" where
  "String_find [] pat = (if pat = [] then Some 0 else None)"
| "String_find (c # cs) pat =
     (if prefix pat (c # cs) then Some 0
      else (case String_find cs pat of None \<Rightarrow> None | Some i \<Rightarrow> Some (Suc i)))"

text \<open>
  Modelled from the spec: \<open>gd::String::FindAndReplace\<close> (GDCore/String) is not part of the
  verified sources. The spec's template engine produces "output with every occurrence of
  each token replaced by its paired text"; one call does this for one token: the receiver
  is scanned from left to right, every occurrence of \<open>search\<close> met is replaced and the
  scan goes on behind the text it matched, so the text just inserted is not scanned by
  this call. The receiver is not changed; the result is a new string. Every call in the
  verified sources passes a non-empty literal as \<open>search\<close>; for the empty one the model
  returns the receiver.
\<close>

fun FindAndReplace :: "string \<Rightarrow> string \<Rightarrow> string \<Rightarrow> string" where
  "FindAndReplace [] search replacement = []"
| "FindAndReplace (c # cs) search replacement =
     (if search \<noteq> [] \<and> prefix search (c # cs)
      then replacement @ FindAndReplace (drop (length search) (c # cs)) search replacement
      else c # FindAndReplace cs search replacement)"

section \<open>The include list (ExporterHelper.cpp)\<close>

text \<open>
  \<open>InsertUnique\<close>: \<open>std::find\<close> over the vector, \<open>push_back\<close> when the end iterator is
  returned. The vector is passed by reference; the model returns the updated vector.
\<close>

definition InsertUnique :: "string list \<Rightarrow> string \<Rightarrow> string list" where
  "InsertUnique container str =
     (if List.find (\<lambda>x. x = str) container = None then container @ [str] else container)"

text \<open>\<open>n\<close> successive calls \<open>InsertUnique(container, str)\<close> with the same argument.\<close>

fun InsertUnique_times :: "nat \<Rightarrow> string list \<Rightarrow> string \<Rightarrow> string list" where
  "InsertUnique_times 0 container str = container"
| "InsertUnique_times (Suc n) container str =
     InsertUnique_times n (InsertUnique container str) str"

text \<open>
  \<open>AddLibsInclude\<close> is a sequence of \<open>InsertUnique\<close> calls on literals, in four groups;
  the last three are guarded by the flags. A run of calls is a left fold over the list of
  its literals.
\<close>

definition AddLibsInclude :: "bool \<Rightarrow> bool \<Rightarrow> bool \<Rightarrow> string list \<Rightarrow> string list" where
  "AddLibsInclude pixiRenderers cocosRenderers websocketDebuggerClient includesFiles =
    (let includesFiles1 = foldl InsertUnique includesFiles
          [''libs/jshashtable.js'', ''gd.js'', ''gd-splash-image.js'', ''libs/hshg.js'',
           ''libs/rbush.js'', ''inputmanager.js'', ''jsonmanager.js'', ''timemanager.js'',
           ''runtimeobject.js'', ''profiler.js'', ''runtimescene.js'', ''scenestack.js'',
           ''polygon.js'', ''force.js'', ''layer.js'', ''timer.js'', ''runtimegame.js'',
           ''variable.js'', ''variablescontainer.js'', ''oncetriggers.js'', ''runtimebehavior.js'',
           ''spriteruntimeobject.js'', ''events-tools/commontools.js'',
           ''events-tools/runtimescenetools.js'', ''events-tools/inputtools.js'',
           ''events-tools/objecttools.js'', ''events-tools/cameratools.js'',
           ''events-tools/soundtools.js'', ''events-tools/storagetools.js'',
           ''events-tools/stringtools.js'', ''events-tools/windowtools.js'',
           ''events-tools/networktools.js''];
       includesFiles2 =
         (if websocketDebuggerClient then foldl InsertUnique includesFiles1
            [''websocket-debugger-client/hot-reloader.js'',
             ''websocket-debugger-client/websocket-debugger-client.js'']
          else includesFiles1);
       includesFiles3 =
         (if pixiRenderers then foldl InsertUnique includesFiles2
            [''pixi-renderers/pixi.js'', ''pixi-renderers/pixi-filters-tools.js'',
             ''pixi-renderers/runtimegame-pixi-renderer.js'',
             ''pixi-renderers/runtimescene-pixi-renderer.js'',
             ''pixi-renderers/layer-pixi-renderer.js'', ''pixi-renderers/pixi-image-manager.js'',
             ''pixi-renderers/spriteruntimeobject-pixi-renderer.js'',
             ''pixi-renderers/loadingscreen-pixi-renderer.js'',
             ''howler-sound-manager/howler.min.js'', ''howler-sound-manager/howler-sound-manager.js'',
             ''fontfaceobserver-font-manager/fontfaceobserver.js'',
             ''fontfaceobserver-font-manager/fontfaceobserver-font-manager.js'']
          else includesFiles2)
     in if cocosRenderers then foldl InsertUnique includesFiles3
          [''cocos-renderers/cocos-director-manager.js'',
           ''cocos-renderers/cocos-image-manager.js'', ''cocos-renderers/cocos-tools.js'',
           ''cocos-renderers/layer-cocos-renderer.js'',
           ''cocos-renderers/loadingscreen-cocos-renderer.js'',
           ''cocos-renderers/runtimegame-cocos-renderer.js'',
           ''cocos-renderers/runtimescene-cocos-renderer.js'',
           ''cocos-renderers/spriteruntimeobject-cocos-renderer.js'',
           ''cocos-sound-manager/cocos-sound-manager.js'',
           ''fontfaceobserver-font-manager/fontfaceobserver.js'',
           ''fontfaceobserver-font-manager/fontfaceobserver-font-manager.js'']
        else includesFiles3)"

text \<open>
  The erase loop of \<open>RemoveIncludes\<close>:
  \<^verbatim>\<open>for (size_t i = 0; i < includesFiles.size();) {
    if (P(includesFiles[i])) includesFiles.erase(includesFiles.begin() + i);
    else ++i; }\<close>
  The index is only read below the size of the vector.
\<close>

function erase_loop :: "(string \<Rightarrow> bool) \<Rightarrow> nat \<Rightarrow> string list \<Rightarrow> string list" where
  "erase_loop P i includesFiles =
     (if i < length includesFiles then
        (if P (includesFiles ! i)
         then erase_loop P i (take i includesFiles @ drop (Suc i) includesFiles)
         else erase_loop P (Suc i) includesFiles)
      else includesFiles)"
  by pat_completeness auto
termination
  by (relation "measure (\<lambda>(P, i, xs). length xs - i)") auto

declare erase_loop.simps [simp del]

definition is_pixi_include :: "string \<Rightarrow> bool" where
  "is_pixi_include includeFile \<longleftrightarrow>
     String_find includeFile ''pixi-renderer'' \<noteq> None \<or>
     String_find includeFile ''pixi-filter'' \<noteq> None"

definition is_cocos_include :: "string \<Rightarrow> bool" where
  "is_cocos_include includeFile \<longleftrightarrow>
     String_find includeFile ''cocos-renderer'' \<noteq> None \<or>
     String_find includeFile ''cocos-shader'' \<noteq> None"

definition RemoveIncludes :: "bool \<Rightarrow> bool \<Rightarrow> string list \<Rightarrow> string list" where
  "RemoveIncludes pixiRenderers cocosRenderers includesFiles =
     (let includesFiles1 =
            (if pixiRenderers then erase_loop is_pixi_include 0 includesFiles
             else includesFiles)
      in if cocosRenderers then erase_loop is_cocos_include 0 includesFiles1
         else includesFiles1)"

section \<open>The behavior code generator (BehaviorCodeGenerator.cpp)\<close>

subsection \<open>Data\<close>

text \<open>
  The generator reads a property through \<open>GetName\<close>, \<open>GetType\<close>, \<open>GetValue\<close> and
  \<open>IsHidden\<close>, an events function through \<open>GetName\<close>, and a behavior through \<open>GetName\<close>,
  \<open>GetFullName\<close>, \<open>GetPropertyDescriptors\<close> and \<open>GetEventsFunctions\<close>. The events of a
  function are opaque here.
\<close>

record NamedPropertyDescriptor =
  property_GetName :: string
  property_GetType :: string
  property_GetValue :: string
  property_IsHidden :: bool

record EventsFunction =
  function_GetName :: string
  function_events :: string

record EventsBasedBehavior =
  behavior_GetName :: string
  behavior_GetFullName :: string
  GetPropertyDescriptors :: "NamedPropertyDescriptor list"
  GetEventsFunctions :: "EventsFunction list"

text \<open>
  Functions that the generator calls and that are defined outside the verified sources
  are parameters of the model: the string quoting of \<open>EventsCodeGenerator\<close>, the accessor
  names declared in the header, and the statement compiler, which gets the events
  function, the namespace of the method, its fully qualified name, the include set and
  the runtime flag, and returns the code with the include set it has extended.
\<close>

record collaborators =
  ConvertToStringExplicit :: "string \<Rightarrow> string"
  GetBehaviorPropertyGetterName :: "string \<Rightarrow> string"
  GetBehaviorPropertySetterName :: "string \<Rightarrow> string"
  GenerateBehaviorEventsFunctionCode ::
    "EventsFunction \<Rightarrow> string \<Rightarrow> string \<Rightarrow> string set \<Rightarrow> bool \<Rightarrow> string \<times> string set"

subsection \<open>Templates\<close>

text \<open>The raw string literals of the source, one line of the literal per line.\<close>

definition RuntimeBehavior_template :: string where
  \<open>RuntimeBehavior_template =
     ''\<newline>'' @
     ''CODE_NAMESPACE = CODE_NAMESPACE || {};\<newline>'' @
     ''\<newline>'' @
     ''/**\<newline>'' @
     '' * Behavior generated from BEHAVIOR_FULL_NAME\<newline>'' @
     '' * @class RUNTIME_BEHAVIOR_CLASSNAME\<newline>'' @
     '' * @extends gdjs.RuntimeBehavior\<newline>'' @
     '' * @constructor\<newline>'' @
     '' */\<newline>'' @
     ''CODE_NAMESPACE.RUNTIME_BEHAVIOR_CLASSNAME = function(runtimeScene, behaviorData, owner)\<newline>'' @
     ''{\<newline>'' @
     ''    gdjs.RuntimeBehavior.call(this, runtimeScene, behaviorData, owner);\<newline>'' @
     ''    this._runtimeScene = runtimeScene;\<newline>'' @
     ''\<newline>'' @
     ''    this._behaviorData = {};\<newline>'' @
     ''    INITIALIZE_PROPERTIES_CODE\<newline>'' @
     ''};\<newline>'' @
     ''\<newline>'' @
     ''CODE_NAMESPACE.RUNTIME_BEHAVIOR_CLASSNAME.prototype = Object.create( gdjs.RuntimeBehavior.prototype );\<newline>'' @
     ''gdjs.registerBehavior("EXTENSION_NAME::BEHAVIOR_NAME", CODE_NAMESPACE.RUNTIME_BEHAVIOR_CLASSNAME);\<newline>'' @
     ''\<newline>'' @
     ''// Hot-reload:\<newline>'' @
     ''CODE_NAMESPACE.RUNTIME_BEHAVIOR_CLASSNAME.prototype.updateFromBehaviorData = function(oldBehaviorData, newBehaviorData) {\<newline>'' @
     ''UPDATE_FROM_BEHAVIOR_DATA_CODE\<newline>'' @
     ''\<newline>'' @
     ''    return true;\<newline>'' @
     ''}\<newline>'' @
     ''\<newline>'' @
     ''// Properties:\<newline>'' @
     ''PROPERTIES_CODE\<newline>'' @
     ''\<newline>'' @
     ''// Methods:\<newline>'' @
     ''METHODS_CODE\<newline>''\<close>

definition InitializePropertyFromData_template :: string where
  \<open>InitializePropertyFromData_template =
     ''\<newline>'' @
     ''    this._behaviorData.PROPERTY_NAME = behaviorData.PROPERTY_NAME !== undefined ? behaviorData.PROPERTY_NAME : DEFAULT_VALUE;''\<close>

definition InitializePropertyFromDefaultValue_template :: string where
  \<open>InitializePropertyFromDefaultValue_template =
     ''\<newline>'' @
     ''    this._behaviorData.PROPERTY_NAME = DEFAULT_VALUE;''\<close>

definition RuntimeBehaviorProperty_template :: string where
  \<open>RuntimeBehaviorProperty_template =
     ''\<newline>'' @
     ''CODE_NAMESPACE.RUNTIME_BEHAVIOR_CLASSNAME.prototype.GETTER_NAME = function() {\<newline>'' @
     ''    return this._behaviorData.PROPERTY_NAME !== undefined ? this._behaviorData.PROPERTY_NAME : DEFAULT_VALUE;\<newline>'' @
     ''};\<newline>'' @
     ''CODE_NAMESPACE.RUNTIME_BEHAVIOR_CLASSNAME.prototype.SETTER_NAME = function(newValue) {\<newline>'' @
     ''    this._behaviorData.PROPERTY_NAME = newValue;\<newline>'' @
     ''};''\<close>

definition UpdatePropertyFromBehaviorData_template :: string where
  \<open>UpdatePropertyFromBehaviorData_template =
     ''\<newline>'' @
     ''    if (oldBehaviorData.PROPERTY_NAME !== newBehaviorData.PROPERTY_NAME)\<newline>'' @
     ''        this._behaviorData.PROPERTY_NAME = newBehaviorData.PROPERTY_NAME;''\<close>

definition OnDestroyToDeprecatedOnOwnerRemovedFromScene_template :: string where
  \<open>OnDestroyToDeprecatedOnOwnerRemovedFromScene_template =
     ''\<newline>'' @
     ''CODE_NAMESPACE.RUNTIME_BEHAVIOR_CLASSNAME.prototype.onDestroy = function() {\<newline>'' @
     ''  // Redirect call to onOwnerRemovedFromScene (the old name of onDestroy)\<newline>'' @
     ''  if (this.onOwnerRemovedFromScene) this.onOwnerRemovedFromScene();\<newline>'' @
     ''};''\<close>

subsection \<open>Property code\<close>

definition GeneratePropertyValueCode :: "collaborators \<Rightarrow> NamedPropertyDescriptor \<Rightarrow> string" where
  "GeneratePropertyValueCode ext property =
     (if property_GetType property = ''String'' \<or> property_GetType property = ''Choice''
      then ConvertToStringExplicit ext (property_GetValue property)
      else if property_GetType property = ''Number''
      then ''Number('' @ ConvertToStringExplicit ext (property_GetValue property) @ '') || 0''
      else if property_GetType property = ''Boolean''
      then (if property_GetValue property = ''true'' then ''true'' else ''false'')
      else ''0 /* Error: property was of an unrecognized type */'')"

definition GenerateInitializePropertyFromDataCode ::
  "collaborators \<Rightarrow> NamedPropertyDescriptor \<Rightarrow> string" where
  "GenerateInitializePropertyFromDataCode ext property =
     FindAndReplace
       (FindAndReplace InitializePropertyFromData_template
          ''PROPERTY_NAME'' (property_GetName property))
       ''DEFAULT_VALUE'' (GeneratePropertyValueCode ext property)"

definition GenerateInitializePropertyFromDefaultValueCode ::
  "collaborators \<Rightarrow> NamedPropertyDescriptor \<Rightarrow> string" where
  "GenerateInitializePropertyFromDefaultValueCode ext property =
     FindAndReplace
       (FindAndReplace InitializePropertyFromDefaultValue_template
          ''PROPERTY_NAME'' (property_GetName property))
       ''DEFAULT_VALUE'' (GeneratePropertyValueCode ext property)"

definition GenerateRuntimeBehaviorPropertyTemplateCode ::
  "collaborators \<Rightarrow> EventsBasedBehavior \<Rightarrow> string \<Rightarrow> NamedPropertyDescriptor \<Rightarrow> string" where
  "GenerateRuntimeBehaviorPropertyTemplateCode ext eventsBasedBehavior codeNamespace property =
     FindAndReplace
      (FindAndReplace
        (FindAndReplace
          (FindAndReplace
            (FindAndReplace
              (FindAndReplace RuntimeBehaviorProperty_template
                 ''PROPERTY_NAME'' (property_GetName property))
               ''GETTER_NAME'' (GetBehaviorPropertyGetterName ext (property_GetName property)))
             ''SETTER_NAME'' (GetBehaviorPropertySetterName ext (property_GetName property)))
           ''DEFAULT_VALUE'' (GeneratePropertyValueCode ext property))
         ''RUNTIME_BEHAVIOR_CLASSNAME'' (behavior_GetName eventsBasedBehavior))
       ''CODE_NAMESPACE'' codeNamespace"

definition GenerateUpdatePropertyFromBehaviorDataCode ::
  "EventsBasedBehavior \<Rightarrow> string \<Rightarrow> NamedPropertyDescriptor \<Rightarrow> string" where
  "GenerateUpdatePropertyFromBehaviorDataCode eventsBasedBehavior codeNamespace property =
     FindAndReplace UpdatePropertyFromBehaviorData_template
       ''PROPERTY_NAME'' (property_GetName property)"

definition GenerateBehaviorOnDestroyToDeprecatedOnOwnerRemovedFromScene ::
  "EventsBasedBehavior \<Rightarrow> string \<Rightarrow> string" where
  "GenerateBehaviorOnDestroyToDeprecatedOnOwnerRemovedFromScene eventsBasedBehavior codeNamespace =
     FindAndReplace
       (FindAndReplace OnDestroyToDeprecatedOnOwnerRemovedFromScene_template
          ''RUNTIME_BEHAVIOR_CLASSNAME'' (behavior_GetName eventsBasedBehavior))
       ''CODE_NAMESPACE'' codeNamespace"

subsection \<open>The module\<close>

text \<open>
  \<open>GenerateRuntimeBehaviorTemplateCode\<close> calls each of its four function arguments once
  and substitutes the results; the model takes the four results. The parameters are, in
  this order, the initialization code, \<open>generateMethodsCode\<close>, \<open>generatePropertiesCode\<close>
  and the hot-reload code.
\<close>

definition GenerateRuntimeBehaviorTemplateCode ::
  "string \<Rightarrow> EventsBasedBehavior \<Rightarrow> string \<Rightarrow> string \<Rightarrow> string \<Rightarrow> string \<Rightarrow> string \<Rightarrow> string" where
  "GenerateRuntimeBehaviorTemplateCode extensionName eventsBasedBehavior codeNamespace
     generateInitializePropertiesCode generateMethodsCode generatePropertiesCode
     generateUpdateFromBehaviorDataCode =
     FindAndReplace
      (FindAndReplace
        (FindAndReplace
          (FindAndReplace
            (FindAndReplace
              (FindAndReplace
                (FindAndReplace
                  (FindAndReplace
                    (FindAndReplace RuntimeBehavior_template
                       ''EXTENSION_NAME'' extensionName)
                     ''BEHAVIOR_NAME'' (behavior_GetName eventsBasedBehavior))
                   ''BEHAVIOR_FULL_NAME'' (behavior_GetFullName eventsBasedBehavior))
                 ''RUNTIME_BEHAVIOR_CLASSNAME'' (behavior_GetName eventsBasedBehavior))
               ''CODE_NAMESPACE'' codeNamespace)
             ''INITIALIZE_PROPERTIES_CODE'' generateInitializePropertiesCode)
           ''UPDATE_FROM_BEHAVIOR_DATA_CODE'' generateUpdateFromBehaviorDataCode)
         ''PROPERTIES_CODE'' generatePropertiesCode)
       ''METHODS_CODE'' generateMethodsCode"

text \<open>
  The four closures of \<open>GenerateRuntimeBehaviorCompleteCode\<close>. Each loop appends to a
  string that starts empty; the loops are functions of the rest of the vector and the
  string built so far.
\<close>

fun runtimeBehaviorDataInitializationCode_loop ::
  "collaborators \<Rightarrow> NamedPropertyDescriptor list \<Rightarrow> string \<Rightarrow> string" where
  "runtimeBehaviorDataInitializationCode_loop ext [] code = code"
| "runtimeBehaviorDataInitializationCode_loop ext (property # properties) code =
     runtimeBehaviorDataInitializationCode_loop ext properties
       (code @ (if property_IsHidden property
                then GenerateInitializePropertyFromDefaultValueCode ext property
                else GenerateInitializePropertyFromDataCode ext property))"

fun runtimeBehaviorPropertyMethodsCode_loop ::
  "collaborators \<Rightarrow> EventsBasedBehavior \<Rightarrow> string \<Rightarrow> NamedPropertyDescriptor list \<Rightarrow>
   string \<Rightarrow> string" where
  "runtimeBehaviorPropertyMethodsCode_loop ext eventsBasedBehavior codeNamespace [] code = code"
| "runtimeBehaviorPropertyMethodsCode_loop ext eventsBasedBehavior codeNamespace
     (property # properties) code =
     runtimeBehaviorPropertyMethodsCode_loop ext eventsBasedBehavior codeNamespace properties
       (code @ GenerateRuntimeBehaviorPropertyTemplateCode ext eventsBasedBehavior
                 codeNamespace property)"

fun updateFromBehaviorCode_loop ::
  "EventsBasedBehavior \<Rightarrow> string \<Rightarrow> NamedPropertyDescriptor list \<Rightarrow> string \<Rightarrow> string" where
  "updateFromBehaviorCode_loop eventsBasedBehavior codeNamespace [] code = code"
| "updateFromBehaviorCode_loop eventsBasedBehavior codeNamespace (property # properties) code =
     updateFromBehaviorCode_loop eventsBasedBehavior codeNamespace properties
       (code @ GenerateUpdatePropertyFromBehaviorDataCode eventsBasedBehavior
                 codeNamespace property)"

text \<open>
  The name of the generated method: the entry of \<open>behaviorMethodMangledNames\<close> for the
  name of the events function, and a fixed name when the map has none.
\<close>

definition functionName_of :: "(string \<rightharpoonup> string) \<Rightarrow> EventsFunction \<Rightarrow> string" where
  "functionName_of behaviorMethodMangledNames eventsFunction =
     (case behaviorMethodMangledNames (function_GetName eventsFunction) of
        Some mangled \<Rightarrow> mangled
      | None \<Rightarrow> ''UNKNOWN_FUNCTION_fix_behaviorMethodMangledNames_please'')"

text \<open>
  One iteration of the loop over the events functions. Its state is the code built so far
  and the include set, which the statement compiler extends.
\<close>

definition runtimeBehaviorMethodsCode_step ::
  "collaborators \<Rightarrow> EventsBasedBehavior \<Rightarrow> string \<Rightarrow> (string \<rightharpoonup> string) \<Rightarrow> bool \<Rightarrow>
   EventsFunction \<Rightarrow> string \<times> string set \<Rightarrow> string \<times> string set" where
  "runtimeBehaviorMethodsCode_step ext eventsBasedBehavior codeNamespace
     behaviorMethodMangledNames compilationForRuntime eventsFunction state =
     (let functionName = functionName_of behaviorMethodMangledNames eventsFunction;
          methodCodeNamespace =
            codeNamespace @ ''.'' @ behavior_GetName eventsBasedBehavior @
            ''.prototype.'' @ functionName @ ''Context'';
          methodFullyQualifiedName =
            codeNamespace @ ''.'' @ behavior_GetName eventsBasedBehavior @
            ''.prototype.'' @ functionName;
          generated =
            GenerateBehaviorEventsFunctionCode ext eventsFunction methodCodeNamespace
              methodFullyQualifiedName (snd state) compilationForRuntime;
          runtimeBehaviorMethodsCode = fst state @ fst generated
      in (if functionName = ''onOwnerRemovedFromScene''
          then runtimeBehaviorMethodsCode @
               GenerateBehaviorOnDestroyToDeprecatedOnOwnerRemovedFromScene
                 eventsBasedBehavior codeNamespace
          else runtimeBehaviorMethodsCode,
          snd generated))"

fun runtimeBehaviorMethodsCode_loop ::
  "collaborators \<Rightarrow> EventsBasedBehavior \<Rightarrow> string \<Rightarrow> (string \<rightharpoonup> string) \<Rightarrow> bool \<Rightarrow>
   EventsFunction list \<Rightarrow> string \<times> string set \<Rightarrow> string \<times> string set" where
  "runtimeBehaviorMethodsCode_loop ext eventsBasedBehavior codeNamespace
     behaviorMethodMangledNames compilationForRuntime [] state = state"
| "runtimeBehaviorMethodsCode_loop ext eventsBasedBehavior codeNamespace
     behaviorMethodMangledNames compilationForRuntime (eventsFunction # eventsFunctions) state =
     runtimeBehaviorMethodsCode_loop ext eventsBasedBehavior codeNamespace
       behaviorMethodMangledNames compilationForRuntime eventsFunctions
       (runtimeBehaviorMethodsCode_step ext eventsBasedBehavior codeNamespace
          behaviorMethodMangledNames compilationForRuntime eventsFunction state)"

text \<open>
  \<open>GenerateRuntimeBehaviorCompleteCode\<close> passes the closures in the order initialization,
  property accessors, events functions, hot-reload. The result is the module together
  with the include set, which the source updates through its reference parameter.
\<close>

definition GenerateRuntimeBehaviorCompleteCode ::
  "collaborators \<Rightarrow> string \<Rightarrow> EventsBasedBehavior \<Rightarrow> string \<Rightarrow> (string \<rightharpoonup> string) \<Rightarrow>
   string set \<Rightarrow> bool \<Rightarrow> string \<times> string set" where
  "GenerateRuntimeBehaviorCompleteCode ext extensionName eventsBasedBehavior codeNamespace
     behaviorMethodMangledNames includeFiles compilationForRuntime =
     (let methods =
            runtimeBehaviorMethodsCode_loop ext eventsBasedBehavior codeNamespace
              behaviorMethodMangledNames compilationForRuntime
              (GetEventsFunctions eventsBasedBehavior) ([], includeFiles)
      in (GenerateRuntimeBehaviorTemplateCode extensionName eventsBasedBehavior codeNamespace
            (runtimeBehaviorDataInitializationCode_loop ext
               (GetPropertyDescriptors eventsBasedBehavior) [])
            (runtimeBehaviorPropertyMethodsCode_loop ext eventsBasedBehavior codeNamespace
               (GetPropertyDescriptors eventsBasedBehavior) [])
            (fst methods)
            (updateFromBehaviorCode_loop eventsBasedBehavior codeNamespace
               (GetPropertyDescriptors eventsBasedBehavior) []),
          snd methods))"

section \<open>The preview export (ExporterHelper.cpp)\<close>

subsection \<open>The options document\<close>

text \<open>
  Modelled from the spec: \<open>gd::SerializerElement\<close> (GDCore/Serialization) is not part of
  the verified sources. The spec gives the document as
  \<open>{ isPreview: bool, injectExternalLayout?: string, scriptFiles: [{path: string, hash:
  integer}] }\<close>. An element has a value, named attributes, named children in the order
  they were added, and the name under which its children count as array items.
  \<open>AddChild\<close> returns a reference to a new child which the caller then fills; in the
  model the caller passes the filled child.
\<close>

datatype SerializerValue = NoValue | BoolValue bool | StringValue string | IntValue int

datatype SerializerElement =
  SerializerElement
    (element_value: SerializerValue)
    (element_attributes: "(string \<times> SerializerValue) list")
    (element_children: "(string \<times> SerializerElement) list")
    (element_arrayOf: string)

definition empty_element :: SerializerElement where
  "empty_element = SerializerElement NoValue [] [] []"

definition AddChild :: "string \<Rightarrow> SerializerElement \<Rightarrow> SerializerElement \<Rightarrow> SerializerElement" where
  "AddChild name child element =
     SerializerElement (element_value element) (element_attributes element)
       (element_children element @ [(name, child)]) (element_arrayOf element)"

definition SetValue :: "SerializerValue \<Rightarrow> SerializerElement \<Rightarrow> SerializerElement" where
  "SetValue v element =
     SerializerElement v (element_attributes element) (element_children element)
       (element_arrayOf element)"

definition SetAttribute ::
  "string \<Rightarrow> SerializerValue \<Rightarrow> SerializerElement \<Rightarrow> SerializerElement" where
  "SetAttribute name v element =
     SerializerElement (element_value element)
       (AList.update name v (element_attributes element))
       (element_children element) (element_arrayOf element)"

definition ConsiderAsArrayOf :: "string \<Rightarrow> SerializerElement \<Rightarrow> SerializerElement" where
  "ConsiderAsArrayOf name element =
     SerializerElement (element_value element) (element_attributes element)
       (element_children element) name"

subsection \<open>Options and environment\<close>

text \<open>
  \<open>PreviewExportOptions\<close>, as far as the export reads it. The project itself and the
  changes made to its copy (splash screen, stripping, first layout) belong to the project
  model, which is outside the verified sources.
\<close>

record PreviewExportOptions =
  exportPath :: string
  layoutName :: string
  externalLayoutName :: string
  includeFileHashes :: "string \<rightharpoonup> int"

record SourceFile =
  GetLanguage :: string
  GetFileName :: string

text \<open>
  What the export gets from its surroundings: the include files reported by the effects
  code generator and, per layout, by the layout code generator (both are
  \<open>std::set\<close>s, given here in their iteration order), the source files of the project
  (a null pointer is \<open>None\<close>), whether a write to a file succeeds, and the rendering of a
  number by \<open>gd::String::From\<close>.
\<close>

record export_environment =
  effectIncludes :: "string list"
  layoutsEventsIncludes :: "string list list"
  allSourceFiles :: "SourceFile option list"
  WriteToFile :: "string \<Rightarrow> bool"
  String_From :: "nat \<Rightarrow> string"

subsection \<open>Stages\<close>

definition ExportEffectIncludes :: "export_environment \<Rightarrow> string list \<Rightarrow> string list" where
  "ExportEffectIncludes env includesFiles = foldl InsertUnique includesFiles (effectIncludes env)"

text \<open>
  \<open>ExportEventsCode\<close>: the loop over the layouts from index \<open>i\<close> on. \<open>None\<close> is the
  \<open>return false\<close> after a failed write.
\<close>

fun ExportEventsCode_loop ::
  "export_environment \<Rightarrow> string \<Rightarrow> nat \<Rightarrow> string list list \<Rightarrow> string list \<Rightarrow>
   string list option" where
  "ExportEventsCode_loop env outputDir i [] includesFiles = Some includesFiles"
| "ExportEventsCode_loop env outputDir i (eventsIncludes # layouts) includesFiles =
     (let filename = outputDir @ ''/'' @ ''code'' @ String_From env i @ ''.js''
      in if WriteToFile env filename
         then ExportEventsCode_loop env outputDir (Suc i) layouts
                (InsertUnique (foldl InsertUnique includesFiles eventsIncludes) filename)
         else None)"

definition ExportEventsCode ::
  "export_environment \<Rightarrow> string \<Rightarrow> string list \<Rightarrow> string list option" where
  "ExportEventsCode env outputDir includesFiles =
     ExportEventsCode_loop env outputDir 0 (layoutsEventsIncludes env) includesFiles"

text \<open>\<open>ExportExternalSourceFiles\<close> always returns true; the model returns the list.\<close>

fun ExportExternalSourceFiles_loop ::
  "export_environment \<Rightarrow> string \<Rightarrow> nat \<Rightarrow> SourceFile option list \<Rightarrow> string list \<Rightarrow>
   string list" where
  "ExportExternalSourceFiles_loop env outputDir i [] includesFiles = includesFiles"
| "ExportExternalSourceFiles_loop env outputDir i (file # files) includesFiles =
     (case file of
        None \<Rightarrow> ExportExternalSourceFiles_loop env outputDir (Suc i) files includesFiles
      | Some f \<Rightarrow>
          if GetLanguage f \<noteq> ''Javascript''
          then ExportExternalSourceFiles_loop env outputDir (Suc i) files includesFiles
          else ExportExternalSourceFiles_loop env outputDir (Suc i) files
                 (InsertUnique includesFiles
                    (outputDir @ ''ext-code'' @ String_From env i @ ''.js'')))"

definition ExportExternalSourceFiles ::
  "export_environment \<Rightarrow> string \<Rightarrow> string list \<Rightarrow> string list" where
  "ExportExternalSourceFiles env outputDir includesFiles =
     ExportExternalSourceFiles_loop env outputDir 0 (allSourceFiles env) includesFiles"

text \<open>
  The loop that fills the \<open>scriptFiles\<close> element: one child per include file, with the
  attributes \<open>path\<close> and \<open>hash\<close>; the hash is the entry of \<open>includeFileHashes\<close>, or 0.
\<close>

fun scriptFiles_loop ::
  "PreviewExportOptions \<Rightarrow> string list \<Rightarrow> SerializerElement \<Rightarrow> SerializerElement" where
  "scriptFiles_loop options [] scriptFilesElement = scriptFilesElement"
| "scriptFiles_loop options (includeFile # includesFiles) scriptFilesElement =
     scriptFiles_loop options includesFiles
       (AddChild ''scriptFile''
          (SetAttribute ''hash''
             (IntValue (case includeFileHashes options includeFile of
                          Some hash \<Rightarrow> hash
                        | None \<Rightarrow> 0))
             (SetAttribute ''path'' (StringValue includeFile) empty_element))
          scriptFilesElement)"

text \<open>
  The setup options passed to \<open>gdjs.RuntimeGame\<close>, built from the options and the include
  list as it is at that point of the export.
\<close>

definition runtimeGameOptions_of :: "PreviewExportOptions \<Rightarrow> string list \<Rightarrow> SerializerElement" where
  "runtimeGameOptions_of options includesFiles =
     (let runtimeGameOptions1 =
            AddChild ''isPreview'' (SetValue (BoolValue True) empty_element) empty_element;
          runtimeGameOptions2 =
            (if externalLayoutName options \<noteq> []
             then AddChild ''injectExternalLayout''
                    (SetValue (StringValue (externalLayoutName options)) empty_element)
                    runtimeGameOptions1
             else runtimeGameOptions1)
      in AddChild ''scriptFiles''
           (scriptFiles_loop options includesFiles
              (ConsiderAsArrayOf ''scriptFile'' empty_element))
           runtimeGameOptions2)"

subsection \<open>The export\<close>

text \<open>
  The result of a run: the value returned, and the options document handed to
  \<open>ExportProjectData\<close>, which writes it to the data file; \<open>None\<close> when the run returns
  before that. The include list is local to the run. After the document is built the run
  adds the data file to the list, copies the files and writes the index file, whose
  write decides the value returned.
\<close>

record preview_export_result =
  returned :: bool
  runtimeGameOptions :: "SerializerElement option"

definition ExportProjectForPixiPreview ::
  "export_environment \<Rightarrow> string \<Rightarrow> PreviewExportOptions \<Rightarrow> preview_export_result" where
  "ExportProjectForPixiPreview env codeOutputDir options =
     (let includesFiles1 = AddLibsInclude True False True [];
          includesFiles2 = ExportEffectIncludes env includesFiles1
      in case ExportEventsCode env codeOutputDir includesFiles2 of
           None \<Rightarrow> \<lparr>returned = False, runtimeGameOptions = None\<rparr>
         | Some includesFiles3 \<Rightarrow>
             (let includesFiles4 = ExportExternalSourceFiles env codeOutputDir includesFiles3;
                  includesFiles5 = RemoveIncludes False True includesFiles4
              in \<lparr>returned = WriteToFile env (exportPath options @ ''/index.html''),
                  runtimeGameOptions = Some (runtimeGameOptions_of options includesFiles5)\<rparr>))"

text \<open>The \<open>path\<close> attributes of the \<open>scriptFile\<close> entries of an options document.\<close>

definition scriptFile_entries :: "SerializerElement \<Rightarrow> SerializerElement list" where
  "scriptFile_entries document =
     concat (map (\<lambda>(name, scriptFiles).
                    if name = ''scriptFiles''
                    then map snd (filter (\<lambda>(n, e). n = ''scriptFile'') (element_children scriptFiles))
                    else [])
               (element_children document))"

definition scriptFile_paths :: "SerializerElement \<Rightarrow> string list" where
  "scriptFile_paths document =
     concat (map (\<lambda>entry. case map_of (element_attributes entry) ''path'' of
                             Some (StringValue p) \<Rightarrow> [p]
                           | _ \<Rightarrow> [])
               (scriptFile_entries document))"

subsection \<open>Chains of substitutions\<close>

text \<open>
  The generator renders a template by a chain of calls
  \<open>template.FindAndReplace(x1, r1).FindAndReplace(x2, r2)...\<close>: each call works on the
  string returned by the call before it.
\<close>

definition FindAndReplace_chain :: "string \<Rightarrow> (string \<times> string) list \<Rightarrow> string" where
  "FindAndReplace_chain s pairs =
     foldl (\<lambda>s (search, replacement). FindAndReplace s search replacement) s pairs"

text \<open>The pairs of the chain in \<open>GenerateRuntimeBehaviorTemplateCode\<close>, in its order.\<close>

definition RuntimeBehavior_substitutions ::
  "string \<Rightarrow> EventsBasedBehavior \<Rightarrow> string \<Rightarrow> string \<Rightarrow> string \<Rightarrow> string \<Rightarrow> string \<Rightarrow>
   (string \<times> string) list" where
  "RuntimeBehavior_substitutions extensionName eventsBasedBehavior codeNamespace
     generateInitializePropertiesCode generateMethodsCode generatePropertiesCode
     generateUpdateFromBehaviorDataCode =
     [(''EXTENSION_NAME'', extensionName),
      (''BEHAVIOR_NAME'', behavior_GetName eventsBasedBehavior),
      (''BEHAVIOR_FULL_NAME'', behavior_GetFullName eventsBasedBehavior),
      (''RUNTIME_BEHAVIOR_CLASSNAME'', behavior_GetName eventsBasedBehavior),
      (''CODE_NAMESPACE'', codeNamespace),
      (''INITIALIZE_PROPERTIES_CODE'', generateInitializePropertiesCode),
      (''UPDATE_FROM_BEHAVIOR_DATA_CODE'', generateUpdateFromBehaviorDataCode),
      (''PROPERTIES_CODE'', generatePropertiesCode),
      (''METHODS_CODE'', generateMethodsCode)]"

text \<open>The pairs of the chain in \<open>GenerateRuntimeBehaviorPropertyTemplateCode\<close>.\<close>

definition RuntimeBehaviorProperty_substitutions ::
  "collaborators \<Rightarrow> EventsBasedBehavior \<Rightarrow> string \<Rightarrow> NamedPropertyDescriptor \<Rightarrow>
   (string \<times> string) list" where
  "RuntimeBehaviorProperty_substitutions ext eventsBasedBehavior codeNamespace property =
     [(''PROPERTY_NAME'', property_GetName property),
      (''GETTER_NAME'', GetBehaviorPropertyGetterName ext (property_GetName property)),
      (''SETTER_NAME'', GetBehaviorPropertySetterName ext (property_GetName property)),
      (''DEFAULT_VALUE'', GeneratePropertyValueCode ext property),
      (''RUNTIME_BEHAVIOR_CLASSNAME'', behavior_GetName eventsBasedBehavior),
      (''CODE_NAMESPACE'', codeNamespace)]"

text \<open>A string contains none of the tokens of a list.\<close>

definition placeholder_free :: "string list \<Rightarrow> string \<Rightarrow> bool" where
  "placeholder_free tokens s \<longleftrightarrow> list_all (\<lambda>token. \<not> sublist token s) tokens"

text \<open>
  The text of one accessor pair on a prototype: a getter that returns the slot of
  \<open>this._behaviorData\<close> unless it is undefined and the default expression otherwise, and a
  setter that assigns its argument to the slot.
\<close>

definition accessor_pair :: "string \<Rightarrow> string \<Rightarrow> string \<Rightarrow> string \<Rightarrow> string \<Rightarrow> string" where
  "accessor_pair class getter setter slot default_value =
     ''\<newline>'' @
     class @ ''.prototype.'' @ getter @ '' = function() {\<newline>'' @
     ''    return this._behaviorData.'' @ slot @ '' !== undefined ? this._behaviorData.'' @
       slot @ '' : '' @ default_value @ '';\<newline>'' @
     ''};\<newline>'' @
     class @ ''.prototype.'' @ setter @ '' = function(newValue) {\<newline>'' @
     ''    this._behaviorData.'' @ slot @ '' = newValue;\<newline>'' @
     ''};''"

text \<open>
  The text of a module: the skeleton of \<open>RuntimeBehavior_template\<close> with a text in the
  place of each placeholder; the texts and the module are strings. The behavior name has
  two places, \<open>BEHAVIOR_NAME\<close> and \<open>RUNTIME_BEHAVIOR_CLASSNAME\<close>.
\<close>

definition RuntimeBehavior_module where
  \<open>RuntimeBehavior_module extensionName behaviorName fullName className codeNamespace
     initializeCode updateCode propertiesCode methodsCode =
     ''\<newline>'' @
     codeNamespace @ '' = '' @ codeNamespace @ '' || {};\<newline>'' @
     ''\<newline>'' @
     ''/**\<newline>'' @
     '' * Behavior generated from '' @ fullName @ ''\<newline>'' @
     '' * @class '' @ className @ ''\<newline>'' @
     '' * @extends gdjs.RuntimeBehavior\<newline>'' @
     '' * @constructor\<newline>'' @
     '' */\<newline>'' @
     codeNamespace @ ''.'' @ className @ '' = function(runtimeScene, behaviorData, owner)\<newline>'' @
     ''{\<newline>'' @
     ''    gdjs.RuntimeBehavior.call(this, runtimeScene, behaviorData, owner);\<newline>'' @
     ''    this._runtimeScene = runtimeScene;\<newline>'' @
     ''\<newline>'' @
     ''    this._behaviorData = {};\<newline>'' @
     ''    '' @ initializeCode @ ''\<newline>'' @
     ''};\<newline>'' @
     ''\<newline>'' @
     codeNamespace @ ''.'' @ className @ ''.prototype = Object.create( gdjs.RuntimeBehavior.prototype );\<newline>'' @
     ''gdjs.registerBehavior("'' @ extensionName @ ''::'' @ behaviorName @ ''", '' @ codeNamespace @ ''.'' @ className @ '');\<newline>'' @
     ''\<newline>'' @
     ''// Hot-reload:\<newline>'' @
     codeNamespace @ ''.'' @ className @ ''.prototype.updateFromBehaviorData = function(oldBehaviorData, newBehaviorData) {\<newline>'' @
     updateCode @ ''\<newline>'' @
     ''\<newline>'' @
     ''    return true;\<newline>'' @
     ''}\<newline>'' @
     ''\<newline>'' @
     ''// Properties:\<newline>'' @
     propertiesCode @ ''\<newline>'' @
     ''\<newline>'' @
     ''// Methods:\<newline>'' @
     methodsCode @ ''\<newline>''\<close>

text \<open>The number of positions of a string at which a pattern occurs.\<close>

fun count_occurrences :: "string \<Rightarrow> string \<Rightarrow> nat" where
  "count_occurrences pat [] = 0"
| "count_occurrences pat (c # cs) =
     (if prefix pat (c # cs) then 1 else 0) + count_occurrences pat cs"

text \<open>A text as the passes after the \<open>k\<close>-th pair of a chain leave it.\<close>

definition later_passes :: "nat \<Rightarrow> (string \<times> string) list \<Rightarrow> string \<Rightarrow> string" where
  "later_passes k pairs s = FindAndReplace_chain s (drop k pairs)"

text \<open>
  The pairs of the chain with which \<open>GenerateRuntimeBehaviorCompleteCode\<close> renders the
  module: those of \<open>GenerateRuntimeBehaviorTemplateCode\<close> for the results of its four
  closures.
\<close>

definition module_substitutions ::
  "collaborators \<Rightarrow> string \<Rightarrow> EventsBasedBehavior \<Rightarrow> string \<Rightarrow> (string \<rightharpoonup> string) \<Rightarrow>
   string set \<Rightarrow> bool \<Rightarrow> (string \<times> string) list" where
  "module_substitutions ext extensionName b codeNamespace names includeFiles rt =
     RuntimeBehavior_substitutions extensionName b codeNamespace
       (runtimeBehaviorDataInitializationCode_loop ext (GetPropertyDescriptors b) [])
       (runtimeBehaviorPropertyMethodsCode_loop ext b codeNamespace (GetPropertyDescriptors b) [])
       (fst (runtimeBehaviorMethodsCode_loop ext b codeNamespace names rt
               (GetEventsFunctions b) ([], includeFiles)))
       (updateFromBehaviorCode_loop b codeNamespace (GetPropertyDescriptors b) [])"


subsection \<open>Sample inputs\<close>

text \<open>
  An instance of the collaborators, and an environment, for the examples below: quoting
  without escapes, accessor names with the prefixes \<open>_get\<close> and \<open>_set\<close>, a statement
  compiler that emits an empty function under the qualified name and reports one include
  file named after the method's namespace.
\<close>

definition sample_collaborators :: collaborators where
  "sample_collaborators =
     \<lparr>ConvertToStringExplicit = (\<lambda>s. [CHR 0x22] @ s @ [CHR 0x22]),
      GetBehaviorPropertyGetterName = (\<lambda>n. ''_get'' @ n),
      GetBehaviorPropertySetterName = (\<lambda>n. ''_set'' @ n),
      GenerateBehaviorEventsFunctionCode =
        (\<lambda>f methodCodeNamespace methodFullyQualifiedName includeFiles rt.
           (''\<newline>'' @ methodFullyQualifiedName @ '' = function() {};'',
            insert (methodCodeNamespace @ ''.js'') includeFiles))\<rparr>"

definition sample_environment :: export_environment where
  "sample_environment =
     \<lparr>effectIncludes = [''pixi-renderers/pixi-filters-tools.js'', ''Effects/night-pixi-filter.js''],
      layoutsEventsIncludes = [[''Extensions/x/a-cocos-renderer.js'', ''Extensions/x/a.js'']],
      allSourceFiles = [None, Some \<lparr>GetLanguage = ''Javascript'', GetFileName = ''own.js''\<rparr>],
      WriteToFile = (\<lambda>filename. True),
      String_From = (\<lambda>n. if n = 0 then ''0'' else ''1'')\<rparr>"

definition sample_options :: PreviewExportOptions where
  "sample_options =
     \<lparr>exportPath = ''/tmp/preview'', layoutName = ''Scene'', externalLayoutName = ''Hud'',
      includeFileHashes = [''gd.js'' \<mapsto> 42]\<rparr>"

definition sample_property :: NamedPropertyDescriptor where
  "sample_property =
     \<lparr>property_GetName = ''label'', property_GetType = ''String'',
      property_GetValue = ''hello'', property_IsHidden = False\<rparr>"

definition sample_behavior :: EventsBasedBehavior where
  "sample_behavior =
     \<lparr>behavior_GetName = ''Health'', behavior_GetFullName = ''Health points'',
      GetPropertyDescriptors = [sample_property], GetEventsFunctions = []\<rparr>"

section \<open>Facts about the string functions\<close>

lemma String_find_sublist: "String_find s pat \<noteq> None \<longleftrightarrow> sublist pat s"
  by (induction s) (auto simp: sublist_Cons_right split: option.splits)

lemma String_find_None: "String_find s pat = None \<longleftrightarrow> \<not> sublist pat s"
  using String_find_sublist [of s pat] by blast

lemma FindAndReplace_absent:
  "\<not> sublist search s \<Longrightarrow> FindAndReplace s search replacement = s"
proof (induction s)
  case Nil
  show ?case by simp
next
  case (Cons c cs)
  from Cons.prems have "\<not> prefix search (c # cs)" and "\<not> sublist search cs"
    by (auto simp: sublist_Cons_right)
  with Cons.IH show ?case by simp
qed

text \<open>A character that is not in the token separates the scan.\<close>

lemma prefix_separator:
  assumes "c \<notin> set search"
  shows "prefix search (a @ c # b) \<longleftrightarrow> prefix search a"
proof
  assume "prefix search (a @ c # b)"
  then consider "prefix search a" | us where "search = a @ us" "prefix us (c # b)"
    by (auto simp: prefix_append)
  then show "prefix search a"
  proof cases
    case 1
    then show ?thesis .
  next
    case 2
    with assms have "us = []" by (cases us) auto
    with 2 show ?thesis by simp
  qed
next
  assume "prefix search a"
  then show "prefix search (a @ c # b)" by (rule prefix_prefix)
qed

lemma FindAndReplace_separator:
  "c \<notin> set search \<Longrightarrow>
   FindAndReplace (a @ c # b) search replacement =
   FindAndReplace a search replacement @ c # FindAndReplace b search replacement"
proof (induction a search replacement rule: FindAndReplace.induct)
  case (1 search replacement)
  then have "\<not> (search \<noteq> [] \<and> prefix search (c # b))"
    by (cases search) auto
  then show ?case by auto
next
  case (2 x xs search replacement)
  note sep = prefix_separator [OF "2.prems", of "x # xs" b]
  show ?case
  proof (cases "search \<noteq> [] \<and> prefix search (x # xs)")
    case True
    then have len: "length search \<le> length (x # xs)"
      by (auto dest: prefix_length_le)
    have lhs: "FindAndReplace ((x # xs) @ c # b) search replacement =
          replacement @ FindAndReplace (drop (length search) ((x # xs) @ c # b)) search replacement"
      using True sep by auto
    have rhs: "FindAndReplace (x # xs) search replacement =
          replacement @ FindAndReplace (drop (length search) (x # xs)) search replacement"
      using True by auto
    have dr: "drop (length search) ((x # xs) @ c # b) = drop (length search) (x # xs) @ c # b"
      using len by (simp only: drop_append) simp
    have ih: "FindAndReplace (drop (length search) (x # xs) @ c # b) search replacement =
               FindAndReplace (drop (length search) (x # xs)) search replacement @
               c # FindAndReplace b search replacement"
      using "2.IH"(1) True "2.prems" by blast
    show ?thesis
      unfolding lhs rhs dr ih by simp
  next
    case False
    have lhs: "FindAndReplace ((x # xs) @ c # b) search replacement =
          x # FindAndReplace (xs @ c # b) search replacement"
      using False sep by auto
    have rhs: "FindAndReplace (x # xs) search replacement =
          x # FindAndReplace xs search replacement"
      using False by auto
    have ih: "FindAndReplace (xs @ c # b) search replacement =
          FindAndReplace xs search replacement @ c # FindAndReplace b search replacement"
      using "2.IH"(2) False "2.prems" by blast
    show ?thesis
      unfolding lhs rhs ih by simp
  qed
qed

text \<open>
  The first occurrence of the token: it is replaced, the text before it is kept, and the
  scan goes on behind it, not in the replacement.
\<close>

lemma prefix_before_first_occurrence:
  assumes "prefix search (pre @ search @ post)" and "pre \<noteq> []"
  shows "sublist search (pre @ butlast search)"
proof (cases "search = []")
  case True
  then show ?thesis by simp
next
  case False
  have split: "pre @ search @ post = (pre @ butlast search) @ last search # post"
    using False by simp
  have "length search \<le> length (pre @ butlast search)"
    using assms(2) by (cases pre) auto
  then have "take (length search) (pre @ search @ post) =
             take (length search) (pre @ butlast search)"
    unfolding split by simp
  moreover have "take (length search) (pre @ search @ post) = search"
  proof -
    obtain zs where eq: "pre @ search @ post = search @ zs"
      using assms(1) by (auto simp: prefix_def)
    show ?thesis by (simp only: eq) simp
  qed
  ultimately have "prefix search (pre @ butlast search)"
    by (metis take_is_prefix)
  then show ?thesis by (rule prefix_imp_sublist)
qed

lemma FindAndReplace_first_occurrence:
  assumes "search \<noteq> []" and "\<not> sublist search (pre @ butlast search)"
  shows "FindAndReplace (pre @ search @ post) search replacement =
         pre @ replacement @ FindAndReplace post search replacement"
  using assms(2)
proof (induction pre)
  case Nil
  obtain c cs where cs: "search @ post = c # cs"
    using assms(1) by (cases search) auto
  have p: "prefix search (c # cs)"
    unfolding cs [symmetric] by simp
  have d: "drop (length search) (c # cs) = post"
    unfolding cs [symmetric] by simp
  have "FindAndReplace (c # cs) search replacement =
        replacement @ FindAndReplace (drop (length search) (c # cs)) search replacement"
    using assms(1) p by simp
  then have "FindAndReplace (search @ post) search replacement =
        replacement @ FindAndReplace post search replacement"
    unfolding d unfolding cs [symmetric] .
  then show ?case by simp
next
  case (Cons x pre)
  have np: "\<not> prefix search ((x # pre) @ search @ post)"
    using prefix_before_first_occurrence [of search "x # pre" post] Cons.prems by blast
  have "\<not> sublist search (pre @ butlast search)"
    using Cons.prems by (auto simp: sublist_Cons_right)
  then have "FindAndReplace (pre @ search @ post) search replacement =
             pre @ replacement @ FindAndReplace post search replacement"
    by (rule Cons.IH)
  then show ?case using np by simp
qed

section \<open>Facts about the include list\<close>

lemma InsertUnique_present: "str \<in> set container \<Longrightarrow> InsertUnique container str = container"
  by (auto simp: InsertUnique_def find_None_iff)

lemma InsertUnique_absent:
  "str \<notin> set container \<Longrightarrow> InsertUnique container str = container @ [str]"
  by (auto simp: InsertUnique_def find_None_iff)

lemma InsertUnique_mem: "str \<in> set (InsertUnique container str)"
  by (cases "str \<in> set container") (simp_all add: InsertUnique_present InsertUnique_absent)

lemma InsertUnique_idem:
  "InsertUnique (InsertUnique container str) str = InsertUnique container str"
  by (rule InsertUnique_present) (rule InsertUnique_mem)

lemma InsertUnique_times_Suc:
  "InsertUnique_times (Suc n) container str = InsertUnique container str"
proof (induction n arbitrary: container)
  case 0
  show ?case by simp
next
  case (Suc n)
  have "InsertUnique_times (Suc (Suc n)) container str =
        InsertUnique_times (Suc n) (InsertUnique container str) str"
    by simp
  also have "\<dots> = InsertUnique (InsertUnique container str) str"
    by (rule Suc.IH)
  finally show ?case by (simp only: InsertUnique_idem)
qed

lemma InsertUnique_distinct: "distinct container \<Longrightarrow> distinct (InsertUnique container str)"
  by (cases "str \<in> set container") (simp_all add: InsertUnique_present InsertUnique_absent)

lemma count_list_distinct_mem: "distinct xs \<Longrightarrow> x \<in> set xs \<Longrightarrow> count_list xs x = 1"
  by (induction xs) (auto simp: count_list_0_iff)

lemma erase_loop_filter:
  "erase_loop P i xs = take i xs @ filter (\<lambda>x. \<not> P x) (drop i xs)"
proof (induction P i xs rule: erase_loop.induct)
  case (1 P i xs)
  show ?case
  proof (cases "i < length xs")
    case False
    then show ?thesis by (subst erase_loop.simps) simp
  next
    case inb: True
    then have dr: "drop i xs = xs ! i # drop (Suc i) xs"
      by (simp add: Cons_nth_drop_Suc)
    show ?thesis
    proof (cases "P (xs ! i)")
      case True
      have "erase_loop P i xs = erase_loop P i (take i xs @ drop (Suc i) xs)"
        using inb True by (subst erase_loop.simps) simp
      also have "\<dots> = take i (take i xs @ drop (Suc i) xs) @
                        filter (\<lambda>x. \<not> P x) (drop i (take i xs @ drop (Suc i) xs))"
        using "1.IH"(1) inb True by simp
      also have "\<dots> = take i xs @ filter (\<lambda>x. \<not> P x) (drop (Suc i) xs)"
        using inb by simp
      finally show ?thesis using True dr by simp
    next
      case False
      have "erase_loop P i xs = erase_loop P (Suc i) xs"
        using inb False by (subst erase_loop.simps) simp
      also have "\<dots> = take (Suc i) xs @ filter (\<lambda>x. \<not> P x) (drop (Suc i) xs)"
        using "1.IH"(2) inb False by simp
      finally show ?thesis using False dr inb by (simp add: take_Suc_conv_app_nth)
    qed
  qed
qed

lemma RemoveIncludes_eq_filter:
  "RemoveIncludes pixiRenderers cocosRenderers includesFiles =
     filter (\<lambda>p. \<not> (pixiRenderers \<and> (sublist ''pixi-renderer'' p \<or> sublist ''pixi-filter'' p)) \<and>
                 \<not> (cocosRenderers \<and> (sublist ''cocos-renderer'' p \<or> sublist ''cocos-shader'' p)))
       includesFiles"
  by (cases pixiRenderers; cases cocosRenderers)
     (simp_all add: RemoveIncludes_def erase_loop_filter is_pixi_include_def
        is_cocos_include_def String_find_None)

section \<open>Facts about the code generator\<close>

lemma runtimeBehaviorDataInitializationCode_loop_concat:
  "runtimeBehaviorDataInitializationCode_loop ext properties code =
     code @ concat (map (\<lambda>property. runtimeBehaviorDataInitializationCode_loop ext [property] [])
                      properties)"
  by (induction properties arbitrary: code) simp_all

lemma runtimeBehaviorPropertyMethodsCode_loop_concat:
  "runtimeBehaviorPropertyMethodsCode_loop ext b codeNamespace properties code =
     code @ concat (map (GenerateRuntimeBehaviorPropertyTemplateCode ext b codeNamespace)
                      properties)"
  by (induction properties arbitrary: code) simp_all

lemma functionName_of_completed:
  "functionName_of
     (\<lambda>name. case names name of
                None \<Rightarrow> Some ''UNKNOWN_FUNCTION_fix_behaviorMethodMangledNames_please''
              | Some mangled \<Rightarrow> Some mangled) f =
   functionName_of names f"
  by (simp add: functionName_of_def split: option.splits)

lemma runtimeBehaviorMethodsCode_step_cong:
  "functionName_of names1 f = functionName_of names2 f \<Longrightarrow>
   runtimeBehaviorMethodsCode_step ext b codeNamespace names1 rt f state =
   runtimeBehaviorMethodsCode_step ext b codeNamespace names2 rt f state"
  by (simp add: runtimeBehaviorMethodsCode_step_def)

lemma runtimeBehaviorMethodsCode_loop_cong:
  "(\<And>f. f \<in> set fs \<Longrightarrow> functionName_of names1 f = functionName_of names2 f) \<Longrightarrow>
   runtimeBehaviorMethodsCode_loop ext b codeNamespace names1 rt fs state =
   runtimeBehaviorMethodsCode_loop ext b codeNamespace names2 rt fs state"
proof (induction fs arbitrary: state)
  case Nil
  show ?case by simp
next
  case (Cons f fs)
  have "runtimeBehaviorMethodsCode_step ext b codeNamespace names1 rt f state =
        runtimeBehaviorMethodsCode_step ext b codeNamespace names2 rt f state"
    by (rule runtimeBehaviorMethodsCode_step_cong) (simp add: Cons.prems)
  then show ?case using Cons.IH Cons.prems by simp
qed

section \<open>Facts about chains of substitutions\<close>

lemma FindAndReplace_chain_separator:
  "\<forall>(search, replacement) \<in> set pairs. c \<notin> set search \<Longrightarrow>
   FindAndReplace_chain (a @ c # b) pairs =
   FindAndReplace_chain a pairs @ c # FindAndReplace_chain b pairs"
proof (induction pairs arbitrary: a b)
  case Nil
  show ?case by (simp add: FindAndReplace_chain_def)
next
  case (Cons pair pairs)
  obtain search replacement where pair: "pair = (search, replacement)"
    by (cases pair)
  have c: "c \<notin> set search" and rest: "\<forall>(search, replacement) \<in> set pairs. c \<notin> set search"
    using Cons.prems by (auto simp: pair)
  have "FindAndReplace_chain (a @ c # b) (pair # pairs) =
        FindAndReplace_chain (FindAndReplace (a @ c # b) search replacement) pairs"
    by (simp add: FindAndReplace_chain_def pair)
  also have "\<dots> = FindAndReplace_chain
      (FindAndReplace a search replacement @ c # FindAndReplace b search replacement) pairs"
    by (simp only: FindAndReplace_separator [OF c])
  also have "\<dots> = FindAndReplace_chain (FindAndReplace a search replacement) pairs @
                    c # FindAndReplace_chain (FindAndReplace b search replacement) pairs"
    by (rule Cons.IH [OF rest])
  finally show ?case by (simp add: FindAndReplace_chain_def pair)
qed

lemma placeholder_free_Cons:
  "placeholder_free (token # tokens) s \<longleftrightarrow> \<not> sublist token s \<and> placeholder_free tokens s"
  by (simp add: placeholder_free_def)

lemma FindAndReplace_chain_Cons:
  "FindAndReplace_chain s ((search, replacement) # pairs) =
   FindAndReplace_chain (FindAndReplace s search replacement) pairs"
  by (simp add: FindAndReplace_chain_def)

lemma FindAndReplace_chain_absent:
  "placeholder_free (map fst pairs) s \<Longrightarrow> FindAndReplace_chain s pairs = s"
proof (induction pairs)
  case Nil
  show ?case by (simp add: FindAndReplace_chain_def)
next
  case (Cons pair pairs)
  obtain search replacement where pair: "pair = (search, replacement)"
    by (cases pair)
  from Cons.prems have "\<not> sublist search s" and rest: "placeholder_free (map fst pairs) s"
    by (simp_all add: pair placeholder_free_Cons)
  then have "FindAndReplace s search replacement = s"
    by (simp add: FindAndReplace_absent)
  then show ?case
    using Cons.IH [OF rest] by (simp add: pair FindAndReplace_chain_Cons)
qed

section \<open>The text of the generated fragments\<close>


lemma GenerateInitializePropertyFromDefaultValueCode_text:
  "GenerateInitializePropertyFromDefaultValueCode ext p =
     ''\<newline>    this._behaviorData.'' @
     FindAndReplace (property_GetName p) ''DEFAULT_VALUE'' (GeneratePropertyValueCode ext p) @
     '' = '' @ GeneratePropertyValueCode ext p @ '';''"
  unfolding GenerateInitializePropertyFromDefaultValueCode_def
    InitializePropertyFromDefaultValue_template_def
  by (simp add: FindAndReplace_separator)

lemma GenerateInitializePropertyFromDataCode_text:
  "GenerateInitializePropertyFromDataCode ext p =
     ''\<newline>    this._behaviorData.'' @
     FindAndReplace (property_GetName p) ''DEFAULT_VALUE'' (GeneratePropertyValueCode ext p) @
     '' = behaviorData.'' @
     FindAndReplace (property_GetName p) ''DEFAULT_VALUE'' (GeneratePropertyValueCode ext p) @
     '' !== undefined ? behaviorData.'' @
     FindAndReplace (property_GetName p) ''DEFAULT_VALUE'' (GeneratePropertyValueCode ext p) @
     '' : '' @ GeneratePropertyValueCode ext p @ '';''"
  unfolding GenerateInitializePropertyFromDataCode_def InitializePropertyFromData_template_def
  by (simp add: FindAndReplace_separator)

lemma GenerateUpdatePropertyFromBehaviorDataCode_text:
  "GenerateUpdatePropertyFromBehaviorDataCode b codeNamespace p =
     ''\<newline>    if (oldBehaviorData.'' @ property_GetName p @
     '' !== newBehaviorData.'' @ property_GetName p @ '')\<newline>'' @
     ''        this._behaviorData.'' @ property_GetName p @
     '' = newBehaviorData.'' @ property_GetName p @ '';''"
  unfolding GenerateUpdatePropertyFromBehaviorDataCode_def
    UpdatePropertyFromBehaviorData_template_def
  by (simp add: FindAndReplace_separator)

lemma GenerateRuntimeBehaviorPropertyTemplateCode_chain:
  "GenerateRuntimeBehaviorPropertyTemplateCode ext b codeNamespace p =
     FindAndReplace_chain RuntimeBehaviorProperty_template
       (RuntimeBehaviorProperty_substitutions ext b codeNamespace p)"
  by (simp add: GenerateRuntimeBehaviorPropertyTemplateCode_def FindAndReplace_chain_def
      RuntimeBehaviorProperty_substitutions_def)

lemma RuntimeBehaviorProperty_substitutions_newline:
  "FindAndReplace_chain (a @ CHR ''\<newline>'' # c)
     (RuntimeBehaviorProperty_substitutions ext b codeNamespace p) =
   FindAndReplace_chain a (RuntimeBehaviorProperty_substitutions ext b codeNamespace p) @
   CHR ''\<newline>'' #
   FindAndReplace_chain c (RuntimeBehaviorProperty_substitutions ext b codeNamespace p)"
  by (rule FindAndReplace_chain_separator) (simp add: RuntimeBehaviorProperty_substitutions_def)

lemma RuntimeBehaviorProperty_template_lines:
  \<open>RuntimeBehaviorProperty_template =
     [] @ CHR ''\<newline>'' #
     ''CODE_NAMESPACE.RUNTIME_BEHAVIOR_CLASSNAME.prototype.GETTER_NAME = function() {'' @ CHR ''\<newline>'' #
     ''    return this._behaviorData.PROPERTY_NAME !== undefined ? this._behaviorData.PROPERTY_NAME : DEFAULT_VALUE;'' @ CHR ''\<newline>'' #
     ''};'' @ CHR ''\<newline>'' #
     ''CODE_NAMESPACE.RUNTIME_BEHAVIOR_CLASSNAME.prototype.SETTER_NAME = function(newValue) {'' @ CHR ''\<newline>'' #
     ''    this._behaviorData.PROPERTY_NAME = newValue;'' @ CHR ''\<newline>'' #
     ''};''\<close>
  by (simp add: RuntimeBehaviorProperty_template_def)

lemma GenerateRuntimeBehaviorPropertyTemplateCode_text:
  "GenerateRuntimeBehaviorPropertyTemplateCode ext b codeNamespace p =
     accessor_pair
       (codeNamespace @ ''.'' @
        FindAndReplace_chain (behavior_GetName b) [(''CODE_NAMESPACE'', codeNamespace)])
       (FindAndReplace_chain (GetBehaviorPropertyGetterName ext (property_GetName p))
          (drop 2 (RuntimeBehaviorProperty_substitutions ext b codeNamespace p)))
       (FindAndReplace_chain (GetBehaviorPropertySetterName ext (property_GetName p))
          (drop 3 (RuntimeBehaviorProperty_substitutions ext b codeNamespace p)))
       (FindAndReplace_chain (property_GetName p)
          (drop 1 (RuntimeBehaviorProperty_substitutions ext b codeNamespace p)))
       (FindAndReplace_chain (GeneratePropertyValueCode ext p)
          (drop 4 (RuntimeBehaviorProperty_substitutions ext b codeNamespace p)))"
  unfolding GenerateRuntimeBehaviorPropertyTemplateCode_chain
    RuntimeBehaviorProperty_template_lines
  apply (simp only: RuntimeBehaviorProperty_substitutions_newline)
  apply (simp add: FindAndReplace_separator accessor_pair_def FindAndReplace_chain_def
      RuntimeBehaviorProperty_substitutions_def)
  done

lemma GenerateRuntimeBehaviorTemplateCode_chain:
  "GenerateRuntimeBehaviorTemplateCode e b ns i m p u =
     FindAndReplace_chain RuntimeBehavior_template (RuntimeBehavior_substitutions e b ns i m p u)"
  by (simp add: GenerateRuntimeBehaviorTemplateCode_def FindAndReplace_chain_def
      RuntimeBehavior_substitutions_def)

lemma RuntimeBehavior_substitutions_newline:
  "FindAndReplace_chain (a @ CHR ''\<newline>'' # b) (RuntimeBehavior_substitutions e bb ns i m p u) =
   FindAndReplace_chain a (RuntimeBehavior_substitutions e bb ns i m p u) @
   CHR ''\<newline>'' # FindAndReplace_chain b (RuntimeBehavior_substitutions e bb ns i m p u)"
  by (rule FindAndReplace_chain_separator) (simp add: RuntimeBehavior_substitutions_def)

lemma RuntimeBehavior_template_lines:
  \<open>RuntimeBehavior_template =
     [] @ CHR ''\<newline>'' #
     ''CODE_NAMESPACE = CODE_NAMESPACE || {};'' @ CHR ''\<newline>'' #
     [] @ CHR ''\<newline>'' #
     ''/**'' @ CHR ''\<newline>'' #
     '' * Behavior generated from BEHAVIOR_FULL_NAME'' @ CHR ''\<newline>'' #
     '' * @class RUNTIME_BEHAVIOR_CLASSNAME'' @ CHR ''\<newline>'' #
     '' * @extends gdjs.RuntimeBehavior'' @ CHR ''\<newline>'' #
     '' * @constructor'' @ CHR ''\<newline>'' #
     '' */'' @ CHR ''\<newline>'' #
     ''CODE_NAMESPACE.RUNTIME_BEHAVIOR_CLASSNAME = function(runtimeScene, behaviorData, owner)'' @ CHR ''\<newline>'' #
     ''{'' @ CHR ''\<newline>'' #
     ''    gdjs.RuntimeBehavior.call(this, runtimeScene, behaviorData, owner);'' @ CHR ''\<newline>'' #
     ''    this._runtimeScene = runtimeScene;'' @ CHR ''\<newline>'' #
     [] @ CHR ''\<newline>'' #
     ''    this._behaviorData = {};'' @ CHR ''\<newline>'' #
     ''    INITIALIZE_PROPERTIES_CODE'' @ CHR ''\<newline>'' #
     ''};'' @ CHR ''\<newline>'' #
     [] @ CHR ''\<newline>'' #
     ''CODE_NAMESPACE.RUNTIME_BEHAVIOR_CLASSNAME.prototype = Object.create( gdjs.RuntimeBehavior.prototype );'' @ CHR ''\<newline>'' #
     ''gdjs.registerBehavior("EXTENSION_NAME::BEHAVIOR_NAME", CODE_NAMESPACE.RUNTIME_BEHAVIOR_CLASSNAME);'' @ CHR ''\<newline>'' #
     [] @ CHR ''\<newline>'' #
     ''// Hot-reload:'' @ CHR ''\<newline>'' #
     ''CODE_NAMESPACE.RUNTIME_BEHAVIOR_CLASSNAME.prototype.updateFromBehaviorData = function(oldBehaviorData, newBehaviorData) {'' @ CHR ''\<newline>'' #
     ''UPDATE_FROM_BEHAVIOR_DATA_CODE'' @ CHR ''\<newline>'' #
     [] @ CHR ''\<newline>'' #
     ''    return true;'' @ CHR ''\<newline>'' #
     ''}'' @ CHR ''\<newline>'' #
     [] @ CHR ''\<newline>'' #
     ''// Properties:'' @ CHR ''\<newline>'' #
     ''PROPERTIES_CODE'' @ CHR ''\<newline>'' #
     [] @ CHR ''\<newline>'' #
     ''// Methods:'' @ CHR ''\<newline>'' #
     ''METHODS_CODE'' @ CHR ''\<newline>'' #
     []\<close>
  by (simp add: RuntimeBehavior_template_def)

text \<open>
  The module for all arguments: the skeleton, filled with each argument as the passes
  after its own leave it.
\<close>

lemma GenerateRuntimeBehaviorTemplateCode_text:
  "GenerateRuntimeBehaviorTemplateCode e b ns i m p u =
     RuntimeBehavior_module
       (FindAndReplace_chain e (drop 1 (RuntimeBehavior_substitutions e b ns i m p u)))
       (FindAndReplace_chain (behavior_GetName b)
          (drop 2 (RuntimeBehavior_substitutions e b ns i m p u)))
       (FindAndReplace_chain (behavior_GetFullName b)
          (drop 3 (RuntimeBehavior_substitutions e b ns i m p u)))
       (FindAndReplace_chain (behavior_GetName b)
          (drop 4 (RuntimeBehavior_substitutions e b ns i m p u)))
       (FindAndReplace_chain ns (drop 5 (RuntimeBehavior_substitutions e b ns i m p u)))
       (FindAndReplace_chain i (drop 6 (RuntimeBehavior_substitutions e b ns i m p u)))
       (FindAndReplace_chain u (drop 7 (RuntimeBehavior_substitutions e b ns i m p u)))
       (FindAndReplace_chain p (drop 8 (RuntimeBehavior_substitutions e b ns i m p u)))
       m"
  unfolding GenerateRuntimeBehaviorTemplateCode_chain RuntimeBehavior_template_lines
  apply (simp only: RuntimeBehavior_substitutions_newline)
  apply (simp add: RuntimeBehavior_substitutions_def FindAndReplace_chain_def
      FindAndReplace_separator RuntimeBehavior_module_def)
  done

text \<open>
  When no argument contains a placeholder of a later pass, the module is the skeleton with
  the arguments in place.
\<close>

lemma GenerateRuntimeBehaviorTemplateCode_clean:
  assumes "placeholder_free
      [''BEHAVIOR_NAME'', ''BEHAVIOR_FULL_NAME'', ''RUNTIME_BEHAVIOR_CLASSNAME'',
       ''CODE_NAMESPACE'', ''INITIALIZE_PROPERTIES_CODE'',
       ''UPDATE_FROM_BEHAVIOR_DATA_CODE'', ''PROPERTIES_CODE'', ''METHODS_CODE''] e \<and>
    placeholder_free
      [''BEHAVIOR_FULL_NAME'', ''RUNTIME_BEHAVIOR_CLASSNAME'', ''CODE_NAMESPACE'',
       ''INITIALIZE_PROPERTIES_CODE'', ''UPDATE_FROM_BEHAVIOR_DATA_CODE'',
       ''PROPERTIES_CODE'', ''METHODS_CODE''] (behavior_GetName b) \<and>
    placeholder_free
      [''RUNTIME_BEHAVIOR_CLASSNAME'', ''CODE_NAMESPACE'',
       ''INITIALIZE_PROPERTIES_CODE'', ''UPDATE_FROM_BEHAVIOR_DATA_CODE'',
       ''PROPERTIES_CODE'', ''METHODS_CODE''] (behavior_GetFullName b) \<and>
    placeholder_free
      [''INITIALIZE_PROPERTIES_CODE'', ''UPDATE_FROM_BEHAVIOR_DATA_CODE'',
       ''PROPERTIES_CODE'', ''METHODS_CODE''] ns \<and>
    placeholder_free [''UPDATE_FROM_BEHAVIOR_DATA_CODE'', ''PROPERTIES_CODE'', ''METHODS_CODE''] i \<and>
    placeholder_free [''PROPERTIES_CODE'', ''METHODS_CODE''] u \<and>
    placeholder_free [''METHODS_CODE''] p"
  shows "GenerateRuntimeBehaviorTemplateCode e b ns i m p u =
     RuntimeBehavior_module e (behavior_GetName b) (behavior_GetFullName b) (behavior_GetName b)
       ns i u p m"
proof -
  let ?subs = "RuntimeBehavior_substitutions e b ns i m p u"
  have "FindAndReplace_chain e (drop 1 ?subs) = e"
    and "FindAndReplace_chain (behavior_GetName b) (drop 2 ?subs) = behavior_GetName b"
    and "FindAndReplace_chain (behavior_GetFullName b) (drop 3 ?subs) = behavior_GetFullName b"
    and "FindAndReplace_chain (behavior_GetName b) (drop 4 ?subs) = behavior_GetName b"
    and "FindAndReplace_chain ns (drop 5 ?subs) = ns"
    and "FindAndReplace_chain i (drop 6 ?subs) = i"
    and "FindAndReplace_chain u (drop 7 ?subs) = u"
    and "FindAndReplace_chain p (drop 8 ?subs) = p"
    using assms
    by (simp_all add: FindAndReplace_chain_absent RuntimeBehavior_substitutions_def
        placeholder_free_Cons)
  then show ?thesis
    by (simp only: GenerateRuntimeBehaviorTemplateCode_text)
qed

text \<open>The fragments generated for the sample behavior.\<close>

lemma sample_property_simps:
  "property_GetName sample_property = ''label''"
  "property_GetType sample_property = ''String''"
  "property_GetValue sample_property = ''hello''"
  "property_IsHidden sample_property = False"
  by (simp_all add: sample_property_def)

lemma sample_behavior_simps:
  "behavior_GetName sample_behavior = ''Health''"
  "behavior_GetFullName sample_behavior = ''Health points''"
  "GetPropertyDescriptors sample_behavior = [sample_property]"
  "GetEventsFunctions sample_behavior = []"
  by (simp_all add: sample_behavior_def)

lemma sample_collaborators_simps:
  "ConvertToStringExplicit sample_collaborators s = [CHR 0x22] @ s @ [CHR 0x22]"
  "GetBehaviorPropertyGetterName sample_collaborators n = ''_get'' @ n"
  "GetBehaviorPropertySetterName sample_collaborators n = ''_set'' @ n"
  by (simp_all add: sample_collaborators_def)

lemma sample_default_value:
  \<open>GeneratePropertyValueCode sample_collaborators sample_property = ''"hello"''\<close>
  by (simp add: GeneratePropertyValueCode_def sample_property_simps sample_collaborators_simps)

lemma sample_initialization_fragment:
  \<open>GenerateInitializePropertyFromDataCode sample_collaborators sample_property =
     ''\<newline>'' @
       ''    this._behaviorData.label = behaviorData.label !== undefined ? behaviorData.label : "hello";''\<close>
  by (simp add: GenerateInitializePropertyFromDataCode_text sample_default_value
      sample_property_simps)

lemma sample_update_fragment:
  \<open>GenerateUpdatePropertyFromBehaviorDataCode sample_behavior ''gdjs.evtsExt'' sample_property =
     ''\<newline>'' @
       ''    if (oldBehaviorData.label !== newBehaviorData.label)\<newline>'' @
       ''        this._behaviorData.label = newBehaviorData.label;''\<close>
  by (simp add: GenerateUpdatePropertyFromBehaviorDataCode_text sample_property_simps)

lemma sample_accessor_fragment:
  \<open>GenerateRuntimeBehaviorPropertyTemplateCode sample_collaborators sample_behavior
     ''gdjs.evtsExt'' sample_property =
     ''\<newline>'' @
       ''gdjs.evtsExt.Health.prototype._getlabel = function() {\<newline>'' @
       ''    return this._behaviorData.label !== undefined ? this._behaviorData.label : "hello";\<newline>'' @
       ''};\<newline>'' @
       ''gdjs.evtsExt.Health.prototype._setlabel = function(newValue) {\<newline>'' @
       ''    this._behaviorData.label = newValue;\<newline>'' @
       ''};''\<close>
  by (simp add: GenerateRuntimeBehaviorPropertyTemplateCode_text sample_default_value
      sample_property_simps sample_behavior_simps accessor_pair_def FindAndReplace_chain_def
      RuntimeBehaviorProperty_substitutions_def sample_collaborators_simps)

section \<open>Facts about the module\<close>

lemma GenerateRuntimeBehaviorCompleteCode_module:
  "fst (GenerateRuntimeBehaviorCompleteCode ext extensionName b codeNamespace names
          includeFiles rt) =
   GenerateRuntimeBehaviorTemplateCode extensionName b codeNamespace
     (runtimeBehaviorDataInitializationCode_loop ext (GetPropertyDescriptors b) [])
     (runtimeBehaviorPropertyMethodsCode_loop ext b codeNamespace (GetPropertyDescriptors b) [])
     (fst (runtimeBehaviorMethodsCode_loop ext b codeNamespace names rt
             (GetEventsFunctions b) ([], includeFiles)))
     (updateFromBehaviorCode_loop b codeNamespace (GetPropertyDescriptors b) [])"
  by (simp add: GenerateRuntimeBehaviorCompleteCode_def Let_def)

text \<open>
  The module for every behavior: the skeleton with each text in the place of its
  placeholder as the passes after its own leave it. The code of the events functions
  stands under the comment \<open>Properties\<close>, scanned by the last pass, and the accessor code
  under the comment \<open>Methods\<close>.
\<close>

lemma GenerateRuntimeBehaviorCompleteCode_text:
  "fst (GenerateRuntimeBehaviorCompleteCode ext extensionName b codeNamespace names
          includeFiles rt) =
   RuntimeBehavior_module
     (later_passes 1 (module_substitutions ext extensionName b codeNamespace names includeFiles rt)
        extensionName)
     (later_passes 2 (module_substitutions ext extensionName b codeNamespace names includeFiles rt)
        (behavior_GetName b))
     (later_passes 3 (module_substitutions ext extensionName b codeNamespace names includeFiles rt)
        (behavior_GetFullName b))
     (later_passes 4 (module_substitutions ext extensionName b codeNamespace names includeFiles rt)
        (behavior_GetName b))
     (later_passes 5 (module_substitutions ext extensionName b codeNamespace names includeFiles rt)
        codeNamespace)
     (later_passes 6 (module_substitutions ext extensionName b codeNamespace names includeFiles rt)
        (runtimeBehaviorDataInitializationCode_loop ext (GetPropertyDescriptors b) []))
     (later_passes 7 (module_substitutions ext extensionName b codeNamespace names includeFiles rt)
        (updateFromBehaviorCode_loop b codeNamespace (GetPropertyDescriptors b) []))
     (FindAndReplace
        (fst (runtimeBehaviorMethodsCode_loop ext b codeNamespace names rt
                (GetEventsFunctions b) ([], includeFiles)))
        ''METHODS_CODE''
        (runtimeBehaviorPropertyMethodsCode_loop ext b codeNamespace
           (GetPropertyDescriptors b) []))
     (runtimeBehaviorPropertyMethodsCode_loop ext b codeNamespace (GetPropertyDescriptors b) [])"
proof -
  have last: "FindAndReplace_chain p (drop 8 (RuntimeBehavior_substitutions e bb ns i m p u)) =
      FindAndReplace p ''METHODS_CODE'' m" for e bb ns i m p u
    by (simp add: RuntimeBehavior_substitutions_def FindAndReplace_chain_def)
  show ?thesis
    unfolding GenerateRuntimeBehaviorCompleteCode_module later_passes_def
      module_substitutions_def
    by (simp only: GenerateRuntimeBehaviorTemplateCode_text last)
qed

text \<open>The code of the events functions is in the module as it is when it does not contain
  the last placeholder.\<close>

lemma GenerateRuntimeBehaviorCompleteCode_methods_verbatim:
  assumes "\<not> sublist ''METHODS_CODE''
     (fst (runtimeBehaviorMethodsCode_loop ext b codeNamespace names rt
             (GetEventsFunctions b) ([], includeFiles)))"
  shows "FindAndReplace
        (fst (runtimeBehaviorMethodsCode_loop ext b codeNamespace names rt
                (GetEventsFunctions b) ([], includeFiles)))
        ''METHODS_CODE''
        (runtimeBehaviorPropertyMethodsCode_loop ext b codeNamespace
           (GetPropertyDescriptors b) []) =
     fst (runtimeBehaviorMethodsCode_loop ext b codeNamespace names rt
            (GetEventsFunctions b) ([], includeFiles))"
  using assms by (rule FindAndReplace_absent)

section \<open>Facts about the loop over the events functions\<close>

lemma runtimeBehaviorMethodsCode_step_code:
  "runtimeBehaviorMethodsCode_step ext b ns names rt f (code, inc) =
     (code @ fst (runtimeBehaviorMethodsCode_step ext b ns names rt f ([], inc)),
      snd (runtimeBehaviorMethodsCode_step ext b ns names rt f ([], inc)))"
  by (simp add: runtimeBehaviorMethodsCode_step_def Let_def)

lemma runtimeBehaviorMethodsCode_loop_code:
  "runtimeBehaviorMethodsCode_loop ext b ns names rt fs (code, inc) =
     (code @ fst (runtimeBehaviorMethodsCode_loop ext b ns names rt fs ([], inc)),
      snd (runtimeBehaviorMethodsCode_loop ext b ns names rt fs ([], inc)))"
proof (induction fs arbitrary: code inc)
  case Nil
  show ?case by simp
next
  case (Cons f fs)
  obtain c1 i1 where s: "runtimeBehaviorMethodsCode_step ext b ns names rt f ([], inc) = (c1, i1)"
    by (cases "runtimeBehaviorMethodsCode_step ext b ns names rt f ([], inc)")
  have s': "runtimeBehaviorMethodsCode_step ext b ns names rt f (code, inc) = (code @ c1, i1)"
    using runtimeBehaviorMethodsCode_step_code [of ext b ns names rt f code inc] s by simp
  have "runtimeBehaviorMethodsCode_loop ext b ns names rt (f # fs) (code, inc) =
        runtimeBehaviorMethodsCode_loop ext b ns names rt fs (code @ c1, i1)"
    by (simp add: s')
  also have "\<dots> = ((code @ c1) @ fst (runtimeBehaviorMethodsCode_loop ext b ns names rt fs ([], i1)),
                    snd (runtimeBehaviorMethodsCode_loop ext b ns names rt fs ([], i1)))"
    by (rule Cons.IH)
  finally have l: "runtimeBehaviorMethodsCode_loop ext b ns names rt (f # fs) (code, inc) =
        ((code @ c1) @ fst (runtimeBehaviorMethodsCode_loop ext b ns names rt fs ([], i1)),
         snd (runtimeBehaviorMethodsCode_loop ext b ns names rt fs ([], i1)))" .
  have "runtimeBehaviorMethodsCode_loop ext b ns names rt (f # fs) ([], inc) =
        runtimeBehaviorMethodsCode_loop ext b ns names rt fs (c1, i1)"
    by (simp add: s)
  also have "\<dots> = (c1 @ fst (runtimeBehaviorMethodsCode_loop ext b ns names rt fs ([], i1)),
                    snd (runtimeBehaviorMethodsCode_loop ext b ns names rt fs ([], i1)))"
    by (rule Cons.IH)
  finally have r: "runtimeBehaviorMethodsCode_loop ext b ns names rt (f # fs) ([], inc) =
        (c1 @ fst (runtimeBehaviorMethodsCode_loop ext b ns names rt fs ([], i1)),
         snd (runtimeBehaviorMethodsCode_loop ext b ns names rt fs ([], i1)))" .
  show ?case unfolding l r by simp
qed

lemma runtimeBehaviorMethodsCode_loop_append:
  "runtimeBehaviorMethodsCode_loop ext b ns names rt (fs1 @ fs2) state =
     runtimeBehaviorMethodsCode_loop ext b ns names rt fs2
       (runtimeBehaviorMethodsCode_loop ext b ns names rt fs1 state)"
  by (induction fs1 arbitrary: state) simp_all

text \<open>
  The code built by the loop, at one events function: the code of the functions before
  it, the code of its own step, and the code of the functions after it, each for the
  include set that the steps before have left.
\<close>

lemma runtimeBehaviorMethodsCode_loop_split:
  "fst (runtimeBehaviorMethodsCode_loop ext b ns names rt (before @ f # after) ([], inc)) =
     fst (runtimeBehaviorMethodsCode_loop ext b ns names rt before ([], inc)) @
     fst (runtimeBehaviorMethodsCode_step ext b ns names rt f
            ([], snd (runtimeBehaviorMethodsCode_loop ext b ns names rt before ([], inc)))) @
     fst (runtimeBehaviorMethodsCode_loop ext b ns names rt after
            ([], snd (runtimeBehaviorMethodsCode_step ext b ns names rt f
                        ([], snd (runtimeBehaviorMethodsCode_loop ext b ns names rt before
                                    ([], inc))))))"
proof -
  obtain c0 i0 where b0: "runtimeBehaviorMethodsCode_loop ext b ns names rt before ([], inc) =
      (c0, i0)"
    by (cases "runtimeBehaviorMethodsCode_loop ext b ns names rt before ([], inc)")
  obtain c1 i1 where s: "runtimeBehaviorMethodsCode_step ext b ns names rt f ([], i0) = (c1, i1)"
    by (cases "runtimeBehaviorMethodsCode_step ext b ns names rt f ([], i0)")
  have s': "runtimeBehaviorMethodsCode_step ext b ns names rt f (c0, i0) = (c0 @ c1, i1)"
    using runtimeBehaviorMethodsCode_step_code [of ext b ns names rt f c0 i0] s by simp
  have "runtimeBehaviorMethodsCode_loop ext b ns names rt (before @ f # after) ([], inc) =
        runtimeBehaviorMethodsCode_loop ext b ns names rt after (c0 @ c1, i1)"
    by (simp add: runtimeBehaviorMethodsCode_loop_append b0 s')
  also have "\<dots> =
      ((c0 @ c1) @ fst (runtimeBehaviorMethodsCode_loop ext b ns names rt after ([], i1)),
       snd (runtimeBehaviorMethodsCode_loop ext b ns names rt after ([], i1)))"
    by (rule runtimeBehaviorMethodsCode_loop_code)
  finally show ?thesis by (simp add: b0 s)
qed

lemma runtimeBehaviorMethodsCode_step_empty:
  "runtimeBehaviorMethodsCode_step ext b ns names rt f ([], inc) =
     (fst (GenerateBehaviorEventsFunctionCode ext f
             (ns @ ''.'' @ behavior_GetName b @ ''.prototype.'' @
              functionName_of names f @ ''Context'')
             (ns @ ''.'' @ behavior_GetName b @ ''.prototype.'' @ functionName_of names f)
             inc rt) @
      (if functionName_of names f = ''onOwnerRemovedFromScene''
       then GenerateBehaviorOnDestroyToDeprecatedOnOwnerRemovedFromScene b ns else []),
      snd (GenerateBehaviorEventsFunctionCode ext f
             (ns @ ''.'' @ behavior_GetName b @ ''.prototype.'' @
              functionName_of names f @ ''Context'')
             (ns @ ''.'' @ behavior_GetName b @ ''.prototype.'' @ functionName_of names f)
             inc rt))"
  by (simp add: runtimeBehaviorMethodsCode_step_def Let_def)


section \<open>Facts about the accessor code\<close>

lemma GenerateRuntimeBehaviorPropertyTemplateCode_clean:
  assumes name: "placeholder_free [''GETTER_NAME'', ''SETTER_NAME'', ''DEFAULT_VALUE'',
        ''RUNTIME_BEHAVIOR_CLASSNAME'', ''CODE_NAMESPACE''] (property_GetName p)"
    and getter: "placeholder_free [''SETTER_NAME'', ''DEFAULT_VALUE'',
        ''RUNTIME_BEHAVIOR_CLASSNAME'', ''CODE_NAMESPACE'']
        (GetBehaviorPropertyGetterName ext (property_GetName p))"
    and setter: "placeholder_free [''DEFAULT_VALUE'', ''RUNTIME_BEHAVIOR_CLASSNAME'',
        ''CODE_NAMESPACE''] (GetBehaviorPropertySetterName ext (property_GetName p))"
    and dflt: "placeholder_free [''RUNTIME_BEHAVIOR_CLASSNAME'', ''CODE_NAMESPACE'']
        (GeneratePropertyValueCode ext p)"
    and cls: "placeholder_free [''CODE_NAMESPACE''] (behavior_GetName b)"
  shows "GenerateRuntimeBehaviorPropertyTemplateCode ext b codeNamespace p =
      accessor_pair (codeNamespace @ ''.'' @ behavior_GetName b)
        (GetBehaviorPropertyGetterName ext (property_GetName p))
        (GetBehaviorPropertySetterName ext (property_GetName p))
        (property_GetName p)
        (GeneratePropertyValueCode ext p)"
proof -
  note shape = GenerateRuntimeBehaviorPropertyTemplateCode_text [of ext b codeNamespace p]
  have "FindAndReplace_chain (behavior_GetName b) [(''CODE_NAMESPACE'', codeNamespace)] =
        behavior_GetName b"
    by (rule FindAndReplace_chain_absent) (simp add: cls)
  moreover have "FindAndReplace_chain (GetBehaviorPropertyGetterName ext (property_GetName p))
        (drop 2 (RuntimeBehaviorProperty_substitutions ext b codeNamespace p)) =
        GetBehaviorPropertyGetterName ext (property_GetName p)"
    by (rule FindAndReplace_chain_absent)
       (simp add: getter RuntimeBehaviorProperty_substitutions_def)
  moreover have "FindAndReplace_chain (GetBehaviorPropertySetterName ext (property_GetName p))
        (drop 3 (RuntimeBehaviorProperty_substitutions ext b codeNamespace p)) =
        GetBehaviorPropertySetterName ext (property_GetName p)"
    by (rule FindAndReplace_chain_absent)
       (simp add: setter RuntimeBehaviorProperty_substitutions_def)
  moreover have "FindAndReplace_chain (property_GetName p)
        (drop 1 (RuntimeBehaviorProperty_substitutions ext b codeNamespace p)) =
        property_GetName p"
    by (rule FindAndReplace_chain_absent)
       (simp add: name RuntimeBehaviorProperty_substitutions_def)
  moreover have "FindAndReplace_chain (GeneratePropertyValueCode ext p)
        (drop 4 (RuntimeBehaviorProperty_substitutions ext b codeNamespace p)) =
        GeneratePropertyValueCode ext p"
    by (rule FindAndReplace_chain_absent)
       (simp add: dflt RuntimeBehaviorProperty_substitutions_def)
  ultimately show ?thesis
    using shape by (simp only:)
qed

section \<open>Facts about the number of occurrences\<close>

lemma count_occurrences_separator:
  assumes "c \<notin> set pat" and "pat \<noteq> []"
  shows "count_occurrences pat (xs @ c # ys) =
     count_occurrences pat xs + count_occurrences pat ys"
proof (induction xs)
  case Nil
  from assms have "\<not> prefix pat (c # ys)"
    by (cases pat) auto
  then show ?case by simp
next
  case (Cons x xs)
  have "prefix pat (x # xs @ c # ys) \<longleftrightarrow> prefix pat (x # xs)"
    using prefix_separator [OF assms(1), of "x # xs" ys] by simp
  with Cons.IH show ?case by simp
qed

lemma count_occurrences_lines:
  assumes "c \<notin> set pat" and "pat \<noteq> []"
  shows "count_occurrences pat (concat (map (\<lambda>l. l @ [c]) ls)) =
     sum_list (map (count_occurrences pat) ls)"
proof (induction ls)
  case Nil
  show ?case by simp
next
  case (Cons l ls)
  have "count_occurrences pat (l @ c # concat (map (\<lambda>l. l @ [c]) ls)) =
      count_occurrences pat l + count_occurrences pat (concat (map (\<lambda>l. l @ [c]) ls))"
    using assms by (rule count_occurrences_separator)
  with Cons.IH show ?case by simp
qed

text \<open>The lines of a module.\<close>

lemma RuntimeBehavior_module_lines:
  \<open>RuntimeBehavior_module extensionName behaviorName fullName className codeNamespace
     initializeCode updateCode propertiesCode methodsCode =
   concat (map (\<lambda>l. l @ ''\<newline>'')
       [[],
        codeNamespace @ '' = '' @ codeNamespace @ '' || {};'',
        [],
        ''/**'',
        '' * Behavior generated from '' @ fullName,
        '' * @class '' @ className,
        '' * @extends gdjs.RuntimeBehavior'',
        '' * @constructor'',
        '' */'',
        codeNamespace @ ''.'' @ className @ '' = function(runtimeScene, behaviorData, owner)'',
        ''{'',
        ''    gdjs.RuntimeBehavior.call(this, runtimeScene, behaviorData, owner);'',
        ''    this._runtimeScene = runtimeScene;'',
        [],
        ''    this._behaviorData = {};'',
        ''    '' @ initializeCode,
        ''};'',
        [],
        codeNamespace @ ''.'' @ className @ ''.prototype = Object.create( gdjs.RuntimeBehavior.prototype );'',
        ''gdjs.registerBehavior("'' @ extensionName @ ''::'' @ behaviorName @ ''", '' @ codeNamespace @ ''.'' @ className @ '');'',
        [],
        ''// Hot-reload:'',
        codeNamespace @ ''.'' @ className @ ''.prototype.updateFromBehaviorData = function(oldBehaviorData, newBehaviorData) {'',
        updateCode,
        [],
        ''    return true;'',
        ''}'',
        [],
        ''// Properties:'',
        propertiesCode,
        [],
        ''// Methods:'',
        methodsCode])\<close>
  by (simp add: RuntimeBehavior_module_def)

section \<open>Facts about the options document\<close>

lemma scriptFiles_loop_children:
  "scriptFiles_loop options includesFiles element =
     SerializerElement (element_value element) (element_attributes element)
       (element_children element @
        map (\<lambda>includeFile.
               (''scriptFile'',
                SerializerElement NoValue
                  [(''path'', StringValue includeFile),
                   (''hash'', IntValue (case includeFileHashes options includeFile of
                                         Some hash \<Rightarrow> hash
                                       | None \<Rightarrow> 0))]
                  [] []))
          includesFiles)
       (element_arrayOf element)"
proof (induction includesFiles arbitrary: element)
  case Nil
  show ?case by simp
next
  case (Cons includeFile includesFiles)
  show ?case
    by (simp add: Cons.IH AddChild_def SetAttribute_def empty_element_def)
qed

lemma scriptFile_entries_runtimeGameOptions_of:
  "scriptFile_entries (runtimeGameOptions_of options includesFiles) =
     map (\<lambda>includeFile.
            SerializerElement NoValue
              [(''path'', StringValue includeFile),
               (''hash'', IntValue (case includeFileHashes options includeFile of
                                     Some hash \<Rightarrow> hash
                                   | None \<Rightarrow> 0))]
              [] [])
       includesFiles"
  by (simp add: scriptFile_entries_def runtimeGameOptions_of_def scriptFiles_loop_children
      AddChild_def SetValue_def ConsiderAsArrayOf_def empty_element_def Let_def comp_def
      filter_map)

lemma concat_map_singleton: "concat (map (\<lambda>x. [f x]) xs) = map f xs"
  by (induction xs) simp_all

lemma scriptFile_paths_runtimeGameOptions_of:
  "scriptFile_paths (runtimeGameOptions_of options includesFiles) = includesFiles"
  by (simp add: scriptFile_paths_def scriptFile_entries_runtimeGameOptions_of comp_def
      concat_map_singleton)

lemma ExportProjectForPixiPreview_document:
  assumes "runtimeGameOptions (ExportProjectForPixiPreview env codeOutputDir options) = Some document"
  shows "\<exists>includesFiles.
           document = runtimeGameOptions_of options (RemoveIncludes False True includesFiles)"
  using assms
  by (auto simp: ExportProjectForPixiPreview_def Let_def split: option.splits)

section \<open>Claims about the template rendering\<close>

text \<open>
  C1 as stated does not hold: the replacement given for one placeholder is scanned by the
  passes for the placeholders that follow. In the module generated for an extension named
  \<open>METHODS_CODE\<close>, that name is the replacement of \<open>EXTENSION_NAME\<close>; the last pass
  replaces it by the code given for \<open>METHODS_CODE\<close>, so it is not in the output.
\<close>

theorem replacement_left_unexpanded_counterexample:
  \<open>sublist ''METHODS_CODE'' ''METHODS_CODE'' \<and>
   \<not> sublist ''METHODS_CODE''
     (GenerateRuntimeBehaviorTemplateCode ''METHODS_CODE''
       \<lparr>behavior_GetName = ''Health'', behavior_GetFullName = ''Health points'',
        GetPropertyDescriptors = [], GetEventsFunctions = []\<rparr>
       ''gdjs.evtsExt'' [] ''// no accessors'' ''// no methods'' []) \<and>
   sublist ''gdjs.registerBehavior("// no accessors::Health", gdjs.evtsExt.Health);''
     (GenerateRuntimeBehaviorTemplateCode ''METHODS_CODE''
       \<lparr>behavior_GetName = ''Health'', behavior_GetFullName = ''Health points'',
        GetPropertyDescriptors = [], GetEventsFunctions = []\<rparr>
       ''gdjs.evtsExt'' [] ''// no accessors'' ''// no methods'' [])\<close>
  by (simp add: GenerateRuntimeBehaviorTemplateCode_text RuntimeBehavior_substitutions_def
      FindAndReplace_chain_def RuntimeBehavior_module_def sublist_code)

text \<open>
  C1, amended. \<open>GenerateRuntimeBehaviorTemplateCode\<close> renders the module by a chain of
  passes over the whole text, one per pair of placeholder and replacement and in the
  order of the pairs; each pass works on the text that the passes before it have
  produced. A pass does not scan the text it inserts: at the first occurrence of its
  placeholder it keeps the text before, inserts the replacement and goes on behind the
  placeholder. The passes after it scan the inserted replacement with the rest of the
  text. So the module is the skeleton with each argument in the place of its placeholder
  as the passes after its own leave it. An argument that contains no placeholder of a
  later pass is left as it is, and when no argument contains one, the module is the
  skeleton with the arguments themselves in place.
\<close>

theorem replacement_is_scanned_by_later_passes:
  "GenerateRuntimeBehaviorTemplateCode e b ns i m p u =
     FindAndReplace_chain RuntimeBehavior_template (RuntimeBehavior_substitutions e b ns i m p u) \<and>
   GenerateRuntimeBehaviorTemplateCode e b ns i m p u =
     RuntimeBehavior_module
       (later_passes 1 (RuntimeBehavior_substitutions e b ns i m p u) e)
       (later_passes 2 (RuntimeBehavior_substitutions e b ns i m p u) (behavior_GetName b))
       (later_passes 3 (RuntimeBehavior_substitutions e b ns i m p u) (behavior_GetFullName b))
       (later_passes 4 (RuntimeBehavior_substitutions e b ns i m p u) (behavior_GetName b))
       (later_passes 5 (RuntimeBehavior_substitutions e b ns i m p u) ns)
       (later_passes 6 (RuntimeBehavior_substitutions e b ns i m p u) i)
       (later_passes 7 (RuntimeBehavior_substitutions e b ns i m p u) u)
       (later_passes 8 (RuntimeBehavior_substitutions e b ns i m p u) p)
       m \<and>
   (placeholder_free (map fst (drop k pairs)) s \<longrightarrow> later_passes k pairs s = s) \<and>
   (placeholder_free
      [''BEHAVIOR_NAME'', ''BEHAVIOR_FULL_NAME'', ''RUNTIME_BEHAVIOR_CLASSNAME'',
       ''CODE_NAMESPACE'', ''INITIALIZE_PROPERTIES_CODE'',
       ''UPDATE_FROM_BEHAVIOR_DATA_CODE'', ''PROPERTIES_CODE'', ''METHODS_CODE''] e \<and>
    placeholder_free
      [''BEHAVIOR_FULL_NAME'', ''RUNTIME_BEHAVIOR_CLASSNAME'', ''CODE_NAMESPACE'',
       ''INITIALIZE_PROPERTIES_CODE'', ''UPDATE_FROM_BEHAVIOR_DATA_CODE'',
       ''PROPERTIES_CODE'', ''METHODS_CODE''] (behavior_GetName b) \<and>
    placeholder_free
      [''RUNTIME_BEHAVIOR_CLASSNAME'', ''CODE_NAMESPACE'',
       ''INITIALIZE_PROPERTIES_CODE'', ''UPDATE_FROM_BEHAVIOR_DATA_CODE'',
       ''PROPERTIES_CODE'', ''METHODS_CODE''] (behavior_GetFullName b) \<and>
    placeholder_free
      [''INITIALIZE_PROPERTIES_CODE'', ''UPDATE_FROM_BEHAVIOR_DATA_CODE'',
       ''PROPERTIES_CODE'', ''METHODS_CODE''] ns \<and>
    placeholder_free [''UPDATE_FROM_BEHAVIOR_DATA_CODE'', ''PROPERTIES_CODE'', ''METHODS_CODE''] i \<and>
    placeholder_free [''PROPERTIES_CODE'', ''METHODS_CODE''] u \<and>
    placeholder_free [''METHODS_CODE''] p \<longrightarrow>
    GenerateRuntimeBehaviorTemplateCode e b ns i m p u =
      RuntimeBehavior_module e (behavior_GetName b) (behavior_GetFullName b)
        (behavior_GetName b) ns i u p m) \<and>
   FindAndReplace_chain s ((X, r) # pairs) =
     FindAndReplace_chain (FindAndReplace s X r) pairs \<and>
   (X \<noteq> [] \<and> \<not> sublist X (pre @ butlast X) \<longrightarrow>
      FindAndReplace (pre @ X @ post) X r = pre @ r @ FindAndReplace post X r \<and>
      FindAndReplace_chain (pre @ X @ post) ((X, r) # pairs) =
        FindAndReplace_chain (pre @ r @ FindAndReplace post X r) pairs)"
proof -
  have chain: "GenerateRuntimeBehaviorTemplateCode e b ns i m p u =
     FindAndReplace_chain RuntimeBehavior_template (RuntimeBehavior_substitutions e b ns i m p u)"
    by (rule GenerateRuntimeBehaviorTemplateCode_chain)
  have module: "GenerateRuntimeBehaviorTemplateCode e b ns i m p u =
     RuntimeBehavior_module
       (later_passes 1 (RuntimeBehavior_substitutions e b ns i m p u) e)
       (later_passes 2 (RuntimeBehavior_substitutions e b ns i m p u) (behavior_GetName b))
       (later_passes 3 (RuntimeBehavior_substitutions e b ns i m p u) (behavior_GetFullName b))
       (later_passes 4 (RuntimeBehavior_substitutions e b ns i m p u) (behavior_GetName b))
       (later_passes 5 (RuntimeBehavior_substitutions e b ns i m p u) ns)
       (later_passes 6 (RuntimeBehavior_substitutions e b ns i m p u) i)
       (later_passes 7 (RuntimeBehavior_substitutions e b ns i m p u) u)
       (later_passes 8 (RuntimeBehavior_substitutions e b ns i m p u) p)
       m"
    unfolding later_passes_def by (rule GenerateRuntimeBehaviorTemplateCode_text)
  have kept: "placeholder_free (map fst (drop k pairs)) s \<longrightarrow> later_passes k pairs s = s"
    by (simp add: later_passes_def FindAndReplace_chain_absent)
  have clean: "placeholder_free
      [''BEHAVIOR_NAME'', ''BEHAVIOR_FULL_NAME'', ''RUNTIME_BEHAVIOR_CLASSNAME'',
       ''CODE_NAMESPACE'', ''INITIALIZE_PROPERTIES_CODE'',
       ''UPDATE_FROM_BEHAVIOR_DATA_CODE'', ''PROPERTIES_CODE'', ''METHODS_CODE''] e \<and>
    placeholder_free
      [''BEHAVIOR_FULL_NAME'', ''RUNTIME_BEHAVIOR_CLASSNAME'', ''CODE_NAMESPACE'',
       ''INITIALIZE_PROPERTIES_CODE'', ''UPDATE_FROM_BEHAVIOR_DATA_CODE'',
       ''PROPERTIES_CODE'', ''METHODS_CODE''] (behavior_GetName b) \<and>
    placeholder_free
      [''RUNTIME_BEHAVIOR_CLASSNAME'', ''CODE_NAMESPACE'',
       ''INITIALIZE_PROPERTIES_CODE'', ''UPDATE_FROM_BEHAVIOR_DATA_CODE'',
       ''PROPERTIES_CODE'', ''METHODS_CODE''] (behavior_GetFullName b) \<and>
    placeholder_free
      [''INITIALIZE_PROPERTIES_CODE'', ''UPDATE_FROM_BEHAVIOR_DATA_CODE'',
       ''PROPERTIES_CODE'', ''METHODS_CODE''] ns \<and>
    placeholder_free [''UPDATE_FROM_BEHAVIOR_DATA_CODE'', ''PROPERTIES_CODE'', ''METHODS_CODE''] i \<and>
    placeholder_free [''PROPERTIES_CODE'', ''METHODS_CODE''] u \<and>
    placeholder_free [''METHODS_CODE''] p \<longrightarrow>
    GenerateRuntimeBehaviorTemplateCode e b ns i m p u =
      RuntimeBehavior_module e (behavior_GetName b) (behavior_GetFullName b)
        (behavior_GetName b) ns i u p m"
    by (intro impI) (rule GenerateRuntimeBehaviorTemplateCode_clean)
  have step: "FindAndReplace_chain s ((X, r) # pairs) =
     FindAndReplace_chain (FindAndReplace s X r) pairs"
    by (rule FindAndReplace_chain_Cons)
  have first: "X \<noteq> [] \<and> \<not> sublist X (pre @ butlast X) \<longrightarrow>
      FindAndReplace (pre @ X @ post) X r = pre @ r @ FindAndReplace post X r \<and>
      FindAndReplace_chain (pre @ X @ post) ((X, r) # pairs) =
        FindAndReplace_chain (pre @ r @ FindAndReplace post X r) pairs"
  proof (intro impI, elim conjE)
    assume "X \<noteq> []" and "\<not> sublist X (pre @ butlast X)"
    then have pass: "FindAndReplace (pre @ X @ post) X r = pre @ r @ FindAndReplace post X r"
      by (rule FindAndReplace_first_occurrence)
    then show "FindAndReplace (pre @ X @ post) X r = pre @ r @ FindAndReplace post X r \<and>
      FindAndReplace_chain (pre @ X @ post) ((X, r) # pairs) =
        FindAndReplace_chain (pre @ r @ FindAndReplace post X r) pairs"
      by (simp only: FindAndReplace_chain_Cons)
  qed
  show ?thesis
    by (intro conjI) (rule chain, rule module, rule kept, rule clean, rule step, rule first)
qed

theorem replacement_is_scanned_by_later_passes_witness:
  \<open>GenerateRuntimeBehaviorTemplateCode ''Platformer''
     \<lparr>behavior_GetName = ''Health'', behavior_GetFullName = ''Health points'',
      GetPropertyDescriptors = [], GetEventsFunctions = []\<rparr>
     ''gdjs.evtsExt'' ''// init'' ''// accessors'' ''// methods'' ''// update'' =
   RuntimeBehavior_module ''Platformer'' ''Health'' ''Health points'' ''Health''
     ''gdjs.evtsExt'' ''// init'' ''// update'' ''// methods'' ''// accessors'' \<and>
   later_passes 1 [(''EXTENSION_NAME'', ''Platformer''), (''METHODS_CODE'', ''// accessors'')]
     ''Platformer'' = ''Platformer'' \<and>
   FindAndReplace_chain ''registerBehavior("EXTENSION_NAME::BEHAVIOR_NAME");''
     [(''EXTENSION_NAME'', ''METHODS_CODE''), (''METHODS_CODE'', ''// no accessors'')] =
   FindAndReplace_chain ''registerBehavior("METHODS_CODE::BEHAVIOR_NAME");''
     [(''METHODS_CODE'', ''// no accessors'')]\<close>
  using
    replacement_is_scanned_by_later_passes
      [where e = "''Platformer''"
         and b = "\<lparr>behavior_GetName = ''Health'', behavior_GetFullName = ''Health points'',
                   GetPropertyDescriptors = [], GetEventsFunctions = []\<rparr>"
         and ns = "''gdjs.evtsExt''" and i = "''// init''" and m = "''// accessors''"
         and p = "''// methods''" and u = "''// update''"
         and k = 1
         and pairs = "[(''EXTENSION_NAME'', ''Platformer''), (''METHODS_CODE'', ''// accessors'')]"
         and s = "''Platformer''"
         and X = "''EXTENSION_NAME''" and r = "''METHODS_CODE''"
         and pre = \<open>''registerBehavior("''\<close> and post = \<open>''::BEHAVIOR_NAME");''\<close>]
    replacement_is_scanned_by_later_passes
      [where X = "''EXTENSION_NAME''" and r = "''METHODS_CODE''"
         and pre = \<open>''registerBehavior("''\<close> and post = \<open>''::BEHAVIOR_NAME");''\<close>
         and pairs = "[(''METHODS_CODE'', ''// no accessors'')]"]
  by (simp add: sublist_code placeholder_free_def later_passes_def
      RuntimeBehavior_substitutions_def FindAndReplace_chain_def)

section \<open>Claims about the property code\<close>

text \<open>
  C2 as stated does not hold for every property: for the property named \<open>DEFAULT_VALUE\<close>
  that is not hidden, the pass for the default value replaces the name as well, and the
  initialization reads the input data at the key \<open>true\<close>, not at the name of the
  property.
\<close>

theorem initialization_reads_property_name_counterexample:
  "runtimeBehaviorDataInitializationCode_loop sample_collaborators
     [\<lparr>property_GetName = ''DEFAULT_VALUE'', property_GetType = ''Boolean'',
       property_GetValue = ''true'', property_IsHidden = False\<rparr>] [] =
     ''\<newline>    this._behaviorData.true = behaviorData.true !== undefined ? behaviorData.true : true;'' \<and>
   \<not> sublist ''behaviorData.DEFAULT_VALUE''
     (runtimeBehaviorDataInitializationCode_loop sample_collaborators
        [\<lparr>property_GetName = ''DEFAULT_VALUE'', property_GetType = ''Boolean'',
          property_GetValue = ''true'', property_IsHidden = False\<rparr>] [])"
  by (simp add: GenerateInitializePropertyFromDataCode_text GeneratePropertyValueCode_def
      sublist_code)

text \<open>
  C2, amended. For the properties of a behavior whose names do not contain the text
  \<open>DEFAULT_VALUE\<close>, the initialization code is, property by property and in their order:
  for a hidden property the assignment of the rendered default value to the slot of
  \<open>this._behaviorData\<close> named by the property, with no read of the input data; for a
  property that is not hidden the assignment of the entry of \<open>behaviorData\<close> at the name
  of the property, unless it is undefined, and of the rendered default value otherwise.
\<close>

theorem initialization_fragment_by_hidden_flag:
  assumes "\<forall>p \<in> set properties. \<not> sublist ''DEFAULT_VALUE'' (property_GetName p)"
  shows "runtimeBehaviorDataInitializationCode_loop ext properties [] =
     concat (map (\<lambda>p.
       if property_IsHidden p
       then ''\<newline>    this._behaviorData.'' @ property_GetName p @ '' = '' @
            GeneratePropertyValueCode ext p @ '';''
       else ''\<newline>    this._behaviorData.'' @ property_GetName p @
            '' = behaviorData.'' @ property_GetName p @
            '' !== undefined ? behaviorData.'' @ property_GetName p @
            '' : '' @ GeneratePropertyValueCode ext p @ '';'') properties)"
proof -
  have one: "runtimeBehaviorDataInitializationCode_loop ext [p] [] =
       (if property_IsHidden p
        then ''\<newline>    this._behaviorData.'' @ property_GetName p @ '' = '' @
             GeneratePropertyValueCode ext p @ '';''
        else ''\<newline>    this._behaviorData.'' @ property_GetName p @
             '' = behaviorData.'' @ property_GetName p @
             '' !== undefined ? behaviorData.'' @ property_GetName p @
             '' : '' @ GeneratePropertyValueCode ext p @ '';'')"
    if "p \<in> set properties" for p
  proof -
    have "\<not> sublist ''DEFAULT_VALUE'' (property_GetName p)"
      using assms that by blast
    then have "FindAndReplace (property_GetName p) ''DEFAULT_VALUE''
                 (GeneratePropertyValueCode ext p) = property_GetName p"
      by (rule FindAndReplace_absent)
    then show ?thesis
      by (simp add: GenerateInitializePropertyFromDataCode_text
          GenerateInitializePropertyFromDefaultValueCode_text)
  qed
  have "runtimeBehaviorDataInitializationCode_loop ext properties [] =
        concat (map (\<lambda>p. runtimeBehaviorDataInitializationCode_loop ext [p] []) properties)"
    using runtimeBehaviorDataInitializationCode_loop_concat [of ext properties "[]"] by simp
  also have "map (\<lambda>p. runtimeBehaviorDataInitializationCode_loop ext [p] []) properties =
     map (\<lambda>p.
       if property_IsHidden p
       then ''\<newline>    this._behaviorData.'' @ property_GetName p @ '' = '' @
            GeneratePropertyValueCode ext p @ '';''
       else ''\<newline>    this._behaviorData.'' @ property_GetName p @
            '' = behaviorData.'' @ property_GetName p @
            '' !== undefined ? behaviorData.'' @ property_GetName p @
            '' : '' @ GeneratePropertyValueCode ext p @ '';'') properties"
    by (rule map_cong [OF refl]) (rule one)
  finally show ?thesis .
qed

theorem initialization_fragment_by_hidden_flag_witness:
  \<open>runtimeBehaviorDataInitializationCode_loop sample_collaborators
     [\<lparr>property_GetName = ''speed'', property_GetType = ''Number'',
       property_GetValue = ''12'', property_IsHidden = True\<rparr>,
      \<lparr>property_GetName = ''label'', property_GetType = ''String'',
       property_GetValue = ''hello'', property_IsHidden = False\<rparr>] [] =
   ''\<newline>    this._behaviorData.speed = Number("12") || 0;'' @
   ''\<newline>    this._behaviorData.label = behaviorData.label !== undefined ? behaviorData.label : "hello";''\<close>
  using initialization_fragment_by_hidden_flag
    [of "[\<lparr>property_GetName = ''speed'', property_GetType = ''Number'',
           property_GetValue = ''12'', property_IsHidden = True\<rparr>,
          \<lparr>property_GetName = ''label'', property_GetType = ''String'',
           property_GetValue = ''hello'', property_IsHidden = False\<rparr>]"
        sample_collaborators]
  by (simp add: sublist_code GeneratePropertyValueCode_def sample_collaborators_def)

text \<open>
  C3 as stated does not hold for every behavior: the accessor code is the replacement of
  the placeholder \<open>METHODS_CODE\<close>, and the pass for this placeholder also scans the
  extension name given before. The module generated for the sample behavior, which has
  one property, in an extension named \<open>METHODS_CODE\<close> has the accessor code twice, once
  in the call of \<open>gdjs.registerBehavior\<close>: two getters and two setters.
\<close>

theorem accessor_count_counterexample:
  \<open>length (GetPropertyDescriptors sample_behavior) = 1 \<and>
   count_occurrences ''= function() {''
     (fst (GenerateRuntimeBehaviorCompleteCode sample_collaborators ''METHODS_CODE''
             sample_behavior ''gdjs.evtsExt'' Map.empty {} True)) = 2 \<and>
   count_occurrences ''= function(newValue) {''
     (fst (GenerateRuntimeBehaviorCompleteCode sample_collaborators ''METHODS_CODE''
             sample_behavior ''gdjs.evtsExt'' Map.empty {} True)) = 2\<close>
proof -
  have module: "fst (GenerateRuntimeBehaviorCompleteCode sample_collaborators ''METHODS_CODE''
             sample_behavior ''gdjs.evtsExt'' Map.empty {} True) =
      RuntimeBehavior_module
        (GenerateRuntimeBehaviorPropertyTemplateCode sample_collaborators sample_behavior
           ''gdjs.evtsExt'' sample_property)
        ''Health'' ''Health points'' ''Health'' ''gdjs.evtsExt''
        (GenerateInitializePropertyFromDataCode sample_collaborators sample_property)
        (GenerateUpdatePropertyFromBehaviorDataCode sample_behavior ''gdjs.evtsExt''
           sample_property)
        []
        (GenerateRuntimeBehaviorPropertyTemplateCode sample_collaborators sample_behavior
           ''gdjs.evtsExt'' sample_property)"
    by (simp add: GenerateRuntimeBehaviorCompleteCode_text later_passes_def
        module_substitutions_def RuntimeBehavior_substitutions_def FindAndReplace_chain_def
        sample_behavior_simps sample_property_simps sample_initialization_fragment
        sample_update_fragment sample_accessor_fragment)
  have getters: "count_occurrences ''= function() {''
     (fst (GenerateRuntimeBehaviorCompleteCode sample_collaborators ''METHODS_CODE''
             sample_behavior ''gdjs.evtsExt'' Map.empty {} True)) = 2"
    unfolding module RuntimeBehavior_module_lines
    by (subst count_occurrences_lines;
        simp add: sample_initialization_fragment sample_update_fragment
          sample_accessor_fragment)
  have setters: "count_occurrences ''= function(newValue) {''
     (fst (GenerateRuntimeBehaviorCompleteCode sample_collaborators ''METHODS_CODE''
             sample_behavior ''gdjs.evtsExt'' Map.empty {} True)) = 2"
    unfolding module RuntimeBehavior_module_lines
    by (subst count_occurrences_lines;
        simp add: sample_initialization_fragment sample_update_fragment
          sample_accessor_fragment)
  show ?thesis
    using getters setters by (simp add: sample_behavior_simps)
qed

text \<open>
  C3, amended. For a behavior whose name does not contain \<open>CODE_NAMESPACE\<close> and whose
  properties have names, accessor names and default values that contain no placeholder of
  a later pass of the accessor template, the accessor code is one accessor pair per
  property, in the order of the properties, whatever the hidden flags are: a getter that
  returns the stored value, or the default value when the slot is undefined, and a setter
  that overwrites the stored value, both on the prototype of the behavior class. When
  moreover no text given to the module template contains a placeholder of a later pass,
  the module is the skeleton with exactly these pairs under the comment \<open>Methods\<close>.
\<close>

theorem accessor_pair_per_property:
  assumes properties: "\<forall>p \<in> set (GetPropertyDescriptors b).
      placeholder_free [''GETTER_NAME'', ''SETTER_NAME'', ''DEFAULT_VALUE'',
        ''RUNTIME_BEHAVIOR_CLASSNAME'', ''CODE_NAMESPACE''] (property_GetName p) \<and>
      placeholder_free [''SETTER_NAME'', ''DEFAULT_VALUE'',
        ''RUNTIME_BEHAVIOR_CLASSNAME'', ''CODE_NAMESPACE'']
        (GetBehaviorPropertyGetterName ext (property_GetName p)) \<and>
      placeholder_free [''DEFAULT_VALUE'', ''RUNTIME_BEHAVIOR_CLASSNAME'',
        ''CODE_NAMESPACE''] (GetBehaviorPropertySetterName ext (property_GetName p)) \<and>
      placeholder_free [''RUNTIME_BEHAVIOR_CLASSNAME'', ''CODE_NAMESPACE'']
        (GeneratePropertyValueCode ext p)"
    and cls: "placeholder_free [''CODE_NAMESPACE''] (behavior_GetName b)"
  shows
    "(runtimeBehaviorPropertyMethodsCode_loop ext b codeNamespace (GetPropertyDescriptors b) []) =
       (concat (map (\<lambda>p. accessor_pair (codeNamespace @ ''.'' @ behavior_GetName b)
                          (GetBehaviorPropertyGetterName ext (property_GetName p))
                          (GetBehaviorPropertySetterName ext (property_GetName p))
                          (property_GetName p)
                          (GeneratePropertyValueCode ext p))
                 (GetPropertyDescriptors b))) \<and>
     (placeholder_free
        [''BEHAVIOR_NAME'', ''BEHAVIOR_FULL_NAME'', ''RUNTIME_BEHAVIOR_CLASSNAME'',
         ''CODE_NAMESPACE'', ''INITIALIZE_PROPERTIES_CODE'',
         ''UPDATE_FROM_BEHAVIOR_DATA_CODE'', ''PROPERTIES_CODE'', ''METHODS_CODE'']
        extensionName \<and>
      placeholder_free
        [''BEHAVIOR_FULL_NAME'', ''RUNTIME_BEHAVIOR_CLASSNAME'', ''CODE_NAMESPACE'',
         ''INITIALIZE_PROPERTIES_CODE'', ''UPDATE_FROM_BEHAVIOR_DATA_CODE'',
         ''PROPERTIES_CODE'', ''METHODS_CODE''] (behavior_GetName b) \<and>
      placeholder_free
        [''RUNTIME_BEHAVIOR_CLASSNAME'', ''CODE_NAMESPACE'',
         ''INITIALIZE_PROPERTIES_CODE'', ''UPDATE_FROM_BEHAVIOR_DATA_CODE'',
         ''PROPERTIES_CODE'', ''METHODS_CODE''] (behavior_GetFullName b) \<and>
      placeholder_free
        [''INITIALIZE_PROPERTIES_CODE'', ''UPDATE_FROM_BEHAVIOR_DATA_CODE'',
         ''PROPERTIES_CODE'', ''METHODS_CODE''] codeNamespace \<and>
      placeholder_free
        [''UPDATE_FROM_BEHAVIOR_DATA_CODE'', ''PROPERTIES_CODE'', ''METHODS_CODE'']
        (runtimeBehaviorDataInitializationCode_loop ext (GetPropertyDescriptors b) []) \<and>
      placeholder_free [''PROPERTIES_CODE'', ''METHODS_CODE'']
        (updateFromBehaviorCode_loop b codeNamespace (GetPropertyDescriptors b) []) \<and>
      placeholder_free [''METHODS_CODE'']
        (fst (runtimeBehaviorMethodsCode_loop ext b codeNamespace names rt
               (GetEventsFunctions b) ([], includeFiles))) \<longrightarrow>
      fst (GenerateRuntimeBehaviorCompleteCode ext extensionName b codeNamespace names
             includeFiles rt) =
        RuntimeBehavior_module extensionName (behavior_GetName b) (behavior_GetFullName b)
          (behavior_GetName b) codeNamespace
          (runtimeBehaviorDataInitializationCode_loop ext (GetPropertyDescriptors b) [])
          (updateFromBehaviorCode_loop b codeNamespace (GetPropertyDescriptors b) [])
          (fst (runtimeBehaviorMethodsCode_loop ext b codeNamespace names rt
               (GetEventsFunctions b) ([], includeFiles)))
          (concat (map (\<lambda>p. accessor_pair (codeNamespace @ ''.'' @ behavior_GetName b)
                          (GetBehaviorPropertyGetterName ext (property_GetName p))
                          (GetBehaviorPropertySetterName ext (property_GetName p))
                          (property_GetName p)
                          (GeneratePropertyValueCode ext p))
                 (GetPropertyDescriptors b))))"
proof -
  have fragment: "GenerateRuntimeBehaviorPropertyTemplateCode ext b codeNamespace p =
      accessor_pair (codeNamespace @ ''.'' @ behavior_GetName b)
        (GetBehaviorPropertyGetterName ext (property_GetName p))
        (GetBehaviorPropertySetterName ext (property_GetName p))
        (property_GetName p)
        (GeneratePropertyValueCode ext p)"
    if "p \<in> set (GetPropertyDescriptors b)" for p
    using properties that cls
    by (intro GenerateRuntimeBehaviorPropertyTemplateCode_clean) blast+
  have pairs: "(runtimeBehaviorPropertyMethodsCode_loop ext b codeNamespace (GetPropertyDescriptors b) []) =
       (concat (map (\<lambda>p. accessor_pair (codeNamespace @ ''.'' @ behavior_GetName b)
                          (GetBehaviorPropertyGetterName ext (property_GetName p))
                          (GetBehaviorPropertySetterName ext (property_GetName p))
                          (property_GetName p)
                          (GeneratePropertyValueCode ext p))
                 (GetPropertyDescriptors b)))"
    unfolding runtimeBehaviorPropertyMethodsCode_loop_concat
    using fragment by (simp cong: map_cong)
  have module: "(placeholder_free
        [''BEHAVIOR_NAME'', ''BEHAVIOR_FULL_NAME'', ''RUNTIME_BEHAVIOR_CLASSNAME'',
         ''CODE_NAMESPACE'', ''INITIALIZE_PROPERTIES_CODE'',
         ''UPDATE_FROM_BEHAVIOR_DATA_CODE'', ''PROPERTIES_CODE'', ''METHODS_CODE'']
        extensionName \<and>
      placeholder_free
        [''BEHAVIOR_FULL_NAME'', ''RUNTIME_BEHAVIOR_CLASSNAME'', ''CODE_NAMESPACE'',
         ''INITIALIZE_PROPERTIES_CODE'', ''UPDATE_FROM_BEHAVIOR_DATA_CODE'',
         ''PROPERTIES_CODE'', ''METHODS_CODE''] (behavior_GetName b) \<and>
      placeholder_free
        [''RUNTIME_BEHAVIOR_CLASSNAME'', ''CODE_NAMESPACE'',
         ''INITIALIZE_PROPERTIES_CODE'', ''UPDATE_FROM_BEHAVIOR_DATA_CODE'',
         ''PROPERTIES_CODE'', ''METHODS_CODE''] (behavior_GetFullName b) \<and>
      placeholder_free
        [''INITIALIZE_PROPERTIES_CODE'', ''UPDATE_FROM_BEHAVIOR_DATA_CODE'',
         ''PROPERTIES_CODE'', ''METHODS_CODE''] codeNamespace \<and>
      placeholder_free
        [''UPDATE_FROM_BEHAVIOR_DATA_CODE'', ''PROPERTIES_CODE'', ''METHODS_CODE'']
        (runtimeBehaviorDataInitializationCode_loop ext (GetPropertyDescriptors b) []) \<and>
      placeholder_free [''PROPERTIES_CODE'', ''METHODS_CODE'']
        (updateFromBehaviorCode_loop b codeNamespace (GetPropertyDescriptors b) []) \<and>
      placeholder_free [''METHODS_CODE'']
        (fst (runtimeBehaviorMethodsCode_loop ext b codeNamespace names rt
               (GetEventsFunctions b) ([], includeFiles))) \<longrightarrow>
      fst (GenerateRuntimeBehaviorCompleteCode ext extensionName b codeNamespace names
             includeFiles rt) =
        RuntimeBehavior_module extensionName (behavior_GetName b) (behavior_GetFullName b)
          (behavior_GetName b) codeNamespace
          (runtimeBehaviorDataInitializationCode_loop ext (GetPropertyDescriptors b) [])
          (updateFromBehaviorCode_loop b codeNamespace (GetPropertyDescriptors b) [])
          (fst (runtimeBehaviorMethodsCode_loop ext b codeNamespace names rt
               (GetEventsFunctions b) ([], includeFiles)))
          (concat (map (\<lambda>p. accessor_pair (codeNamespace @ ''.'' @ behavior_GetName b)
                          (GetBehaviorPropertyGetterName ext (property_GetName p))
                          (GetBehaviorPropertySetterName ext (property_GetName p))
                          (property_GetName p)
                          (GeneratePropertyValueCode ext p))
                 (GetPropertyDescriptors b))))"
  proof
    assume "placeholder_free
        [''BEHAVIOR_NAME'', ''BEHAVIOR_FULL_NAME'', ''RUNTIME_BEHAVIOR_CLASSNAME'',
         ''CODE_NAMESPACE'', ''INITIALIZE_PROPERTIES_CODE'',
         ''UPDATE_FROM_BEHAVIOR_DATA_CODE'', ''PROPERTIES_CODE'', ''METHODS_CODE'']
        extensionName \<and>
      placeholder_free
        [''BEHAVIOR_FULL_NAME'', ''RUNTIME_BEHAVIOR_CLASSNAME'', ''CODE_NAMESPACE'',
         ''INITIALIZE_PROPERTIES_CODE'', ''UPDATE_FROM_BEHAVIOR_DATA_CODE'',
         ''PROPERTIES_CODE'', ''METHODS_CODE''] (behavior_GetName b) \<and>
      placeholder_free
        [''RUNTIME_BEHAVIOR_CLASSNAME'', ''CODE_NAMESPACE'',
         ''INITIALIZE_PROPERTIES_CODE'', ''UPDATE_FROM_BEHAVIOR_DATA_CODE'',
         ''PROPERTIES_CODE'', ''METHODS_CODE''] (behavior_GetFullName b) \<and>
      placeholder_free
        [''INITIALIZE_PROPERTIES_CODE'', ''UPDATE_FROM_BEHAVIOR_DATA_CODE'',
         ''PROPERTIES_CODE'', ''METHODS_CODE''] codeNamespace \<and>
      placeholder_free
        [''UPDATE_FROM_BEHAVIOR_DATA_CODE'', ''PROPERTIES_CODE'', ''METHODS_CODE'']
        (runtimeBehaviorDataInitializationCode_loop ext (GetPropertyDescriptors b) []) \<and>
      placeholder_free [''PROPERTIES_CODE'', ''METHODS_CODE'']
        (updateFromBehaviorCode_loop b codeNamespace (GetPropertyDescriptors b) []) \<and>
      placeholder_free [''METHODS_CODE'']
        (fst (runtimeBehaviorMethodsCode_loop ext b codeNamespace names rt
               (GetEventsFunctions b) ([], includeFiles)))"
    then have "GenerateRuntimeBehaviorTemplateCode extensionName b codeNamespace
        (runtimeBehaviorDataInitializationCode_loop ext (GetPropertyDescriptors b) [])
        (runtimeBehaviorPropertyMethodsCode_loop ext b codeNamespace (GetPropertyDescriptors b) [])
        (fst (runtimeBehaviorMethodsCode_loop ext b codeNamespace names rt
               (GetEventsFunctions b) ([], includeFiles)))
        (updateFromBehaviorCode_loop b codeNamespace (GetPropertyDescriptors b) []) =
      RuntimeBehavior_module extensionName (behavior_GetName b) (behavior_GetFullName b)
        (behavior_GetName b) codeNamespace
        (runtimeBehaviorDataInitializationCode_loop ext (GetPropertyDescriptors b) [])
        (updateFromBehaviorCode_loop b codeNamespace (GetPropertyDescriptors b) [])
        (fst (runtimeBehaviorMethodsCode_loop ext b codeNamespace names rt
               (GetEventsFunctions b) ([], includeFiles)))
        (runtimeBehaviorPropertyMethodsCode_loop ext b codeNamespace (GetPropertyDescriptors b) [])"
      by (rule GenerateRuntimeBehaviorTemplateCode_clean)
    then show "fst (GenerateRuntimeBehaviorCompleteCode ext extensionName b codeNamespace names
             includeFiles rt) =
        RuntimeBehavior_module extensionName (behavior_GetName b) (behavior_GetFullName b)
          (behavior_GetName b) codeNamespace
          (runtimeBehaviorDataInitializationCode_loop ext (GetPropertyDescriptors b) [])
          (updateFromBehaviorCode_loop b codeNamespace (GetPropertyDescriptors b) [])
          (fst (runtimeBehaviorMethodsCode_loop ext b codeNamespace names rt
               (GetEventsFunctions b) ([], includeFiles)))
          (concat (map (\<lambda>p. accessor_pair (codeNamespace @ ''.'' @ behavior_GetName b)
                          (GetBehaviorPropertyGetterName ext (property_GetName p))
                          (GetBehaviorPropertySetterName ext (property_GetName p))
                          (property_GetName p)
                          (GeneratePropertyValueCode ext p))
                 (GetPropertyDescriptors b)))"
      unfolding GenerateRuntimeBehaviorCompleteCode_module pairs [symmetric] .
  qed
  show ?thesis
    by (intro conjI) (rule pairs, rule module)
qed

theorem accessor_pair_per_property_witness:
  \<open>fst (GenerateRuntimeBehaviorCompleteCode sample_collaborators ''Platformer''
          sample_behavior ''gdjs.evtsExt'' Map.empty {} True) =
   RuntimeBehavior_module ''Platformer'' ''Health'' ''Health points'' ''Health''
     ''gdjs.evtsExt''
     (GenerateInitializePropertyFromDataCode sample_collaborators sample_property)
     (GenerateUpdatePropertyFromBehaviorDataCode sample_behavior ''gdjs.evtsExt''
        sample_property)
     []
     (accessor_pair ''gdjs.evtsExt.Health'' ''_getlabel'' ''_setlabel'' ''label''
        ''"hello"'') \<and>
   runtimeBehaviorPropertyMethodsCode_loop sample_collaborators
     \<lparr>behavior_GetName = ''Health'', behavior_GetFullName = ''Health points'',
      GetPropertyDescriptors =
        [\<lparr>property_GetName = ''speed'', property_GetType = ''Number'',
          property_GetValue = ''12'', property_IsHidden = True\<rparr>,
         \<lparr>property_GetName = ''label'', property_GetType = ''String'',
          property_GetValue = ''hello'', property_IsHidden = False\<rparr>],
      GetEventsFunctions = []\<rparr>
     ''gdjs.evtsExt''
     [\<lparr>property_GetName = ''speed'', property_GetType = ''Number'',
       property_GetValue = ''12'', property_IsHidden = True\<rparr>,
      \<lparr>property_GetName = ''label'', property_GetType = ''String'',
       property_GetValue = ''hello'', property_IsHidden = False\<rparr>] [] =
   accessor_pair ''gdjs.evtsExt.Health'' ''_getspeed'' ''_setspeed'' ''speed''
     ''Number("12") || 0'' @
   accessor_pair ''gdjs.evtsExt.Health'' ''_getlabel'' ''_setlabel'' ''label''
     ''"hello"''\<close>
  using
    accessor_pair_per_property
      [where b = sample_behavior and ext = sample_collaborators
         and extensionName = "''Platformer''" and codeNamespace = "''gdjs.evtsExt''"
         and names = Map.empty and includeFiles = "{}" and rt = True]
    accessor_pair_per_property
      [where b = "\<lparr>behavior_GetName = ''Health'', behavior_GetFullName = ''Health points'',
                   GetPropertyDescriptors =
                     [\<lparr>property_GetName = ''speed'', property_GetType = ''Number'',
                       property_GetValue = ''12'', property_IsHidden = True\<rparr>,
                      \<lparr>property_GetName = ''label'', property_GetType = ''String'',
                       property_GetValue = ''hello'', property_IsHidden = False\<rparr>],
                   GetEventsFunctions = []\<rparr>"
         and ext = sample_collaborators and codeNamespace = "''gdjs.evtsExt''"]
  by (simp add: sample_behavior_simps sample_property_simps sample_collaborators_simps
      sample_default_value sample_initialization_fragment sample_update_fragment
      GeneratePropertyValueCode_def placeholder_free_def sublist_code)

section \<open>Claims about the code generator\<close>

text \<open>
  C4. The default value of a property is rendered by its type: for \<open>String\<close> and \<open>Choice\<close>
  it is the quoted and escaped value (the result of \<open>ConvertToStringExplicit\<close>), for
  \<open>Number\<close> the coercion \<open>Number(...)\<close> of that literal with the fallback \<open>|| 0\<close>, for
  \<open>Boolean\<close> the literal \<open>true\<close> when the stored text is \<open>true\<close> and \<open>false\<close>
  otherwise, and for every other type a zero with an error comment; no type makes the
  generation fail.
\<close>

theorem GeneratePropertyValueCode_by_type:
  "(property_GetType p = ''String'' \<or> property_GetType p = ''Choice'' \<longrightarrow>
      GeneratePropertyValueCode ext p = ConvertToStringExplicit ext (property_GetValue p)) \<and>
   (property_GetType p = ''Number'' \<longrightarrow>
      GeneratePropertyValueCode ext p =
        ''Number('' @ ConvertToStringExplicit ext (property_GetValue p) @ '') || 0'') \<and>
   (property_GetType p = ''Boolean'' \<longrightarrow>
      (property_GetValue p = ''true'' \<longrightarrow> GeneratePropertyValueCode ext p = ''true'') \<and>
      (property_GetValue p \<noteq> ''true'' \<longrightarrow> GeneratePropertyValueCode ext p = ''false'')) \<and>
   (property_GetType p \<notin> {''String'', ''Choice'', ''Number'', ''Boolean''} \<longrightarrow>
      GeneratePropertyValueCode ext p = ''0 /* Error: property was of an unrecognized type */'')"
  by (simp add: GeneratePropertyValueCode_def)

theorem GeneratePropertyValueCode_by_type_witness:
  \<open>GeneratePropertyValueCode sample_collaborators
     \<lparr>property_GetName = ''label'', property_GetType = ''String'',
      property_GetValue = ''hello'', property_IsHidden = False\<rparr> = ''"hello"'' \<and>
   GeneratePropertyValueCode sample_collaborators
     \<lparr>property_GetName = ''mode'', property_GetType = ''Choice'',
      property_GetValue = ''fast'', property_IsHidden = False\<rparr> = ''"fast"'' \<and>
   GeneratePropertyValueCode sample_collaborators
     \<lparr>property_GetName = ''speed'', property_GetType = ''Number'',
      property_GetValue = ''12'', property_IsHidden = True\<rparr> = ''Number("12") || 0'' \<and>
   GeneratePropertyValueCode sample_collaborators
     \<lparr>property_GetName = ''on'', property_GetType = ''Boolean'',
      property_GetValue = ''true'', property_IsHidden = False\<rparr> = ''true'' \<and>
   GeneratePropertyValueCode sample_collaborators
     \<lparr>property_GetName = ''on'', property_GetType = ''Boolean'',
      property_GetValue = ''True'', property_IsHidden = False\<rparr> = ''false'' \<and>
   GeneratePropertyValueCode sample_collaborators
     \<lparr>property_GetName = ''tint'', property_GetType = ''Color'',
      property_GetValue = ''red'', property_IsHidden = False\<rparr> =
     ''0 /* Error: property was of an unrecognized type */''\<close>
  using
    GeneratePropertyValueCode_by_type [of "\<lparr>property_GetName = ''label'',
      property_GetType = ''String'', property_GetValue = ''hello'',
      property_IsHidden = False\<rparr>" sample_collaborators]
    GeneratePropertyValueCode_by_type [of "\<lparr>property_GetName = ''mode'',
      property_GetType = ''Choice'', property_GetValue = ''fast'',
      property_IsHidden = False\<rparr>" sample_collaborators]
    GeneratePropertyValueCode_by_type [of "\<lparr>property_GetName = ''speed'',
      property_GetType = ''Number'', property_GetValue = ''12'',
      property_IsHidden = True\<rparr>" sample_collaborators]
    GeneratePropertyValueCode_by_type [of "\<lparr>property_GetName = ''on'',
      property_GetType = ''Boolean'', property_GetValue = ''true'',
      property_IsHidden = False\<rparr>" sample_collaborators]
    GeneratePropertyValueCode_by_type [of "\<lparr>property_GetName = ''on'',
      property_GetType = ''Boolean'', property_GetValue = ''True'',
      property_IsHidden = False\<rparr>" sample_collaborators]
    GeneratePropertyValueCode_by_type [of "\<lparr>property_GetName = ''tint'',
      property_GetType = ''Color'', property_GetValue = ''red'',
      property_IsHidden = False\<rparr>" sample_collaborators]
  by (simp add: sample_collaborators_def)

text \<open>
  C5. For an events function of the behavior whose name has no entry in the map of
  mangled names, the generator does not fail: the method name is the fixed name
  \<open>UNKNOWN_FUNCTION_fix_behaviorMethodMangledNames_please\<close>. The code built by the loop over
  the events functions of the behavior is the code of the functions before it, the code
  that the statement compiler returns for it under the namespace and the qualified name
  built from this name, and the code of the functions after it. This code is in the
  generated module under the comment \<open>Properties\<close> as the last pass leaves it, unchanged
  when it does not contain \<open>METHODS_CODE\<close>. The module and the include set are those
  generated with the map completed by this name.
\<close>

theorem unmapped_function_gets_sentinel_name:
  assumes events_functions: "GetEventsFunctions b = before @ f # after"
    and unmapped: "names (function_GetName f) = None"
  shows
    "functionName_of names f = ''UNKNOWN_FUNCTION_fix_behaviorMethodMangledNames_please'' \<and>
     fst (runtimeBehaviorMethodsCode_loop ext b codeNamespace names rt (GetEventsFunctions b) ([], includeFiles)) =
       fst (runtimeBehaviorMethodsCode_loop ext b codeNamespace names rt before ([], includeFiles)) @
       fst (GenerateBehaviorEventsFunctionCode ext f
              (codeNamespace @ ''.'' @ behavior_GetName b @ ''.prototype.'' @
               ''UNKNOWN_FUNCTION_fix_behaviorMethodMangledNames_please'' @ ''Context'')
              (codeNamespace @ ''.'' @ behavior_GetName b @ ''.prototype.'' @
               ''UNKNOWN_FUNCTION_fix_behaviorMethodMangledNames_please'')
              (snd (runtimeBehaviorMethodsCode_loop ext b codeNamespace names rt before ([], includeFiles))) rt) @
       fst (runtimeBehaviorMethodsCode_loop ext b codeNamespace names rt after
              ([], snd (GenerateBehaviorEventsFunctionCode ext f
                          (codeNamespace @ ''.'' @ behavior_GetName b @ ''.prototype.'' @
                           ''UNKNOWN_FUNCTION_fix_behaviorMethodMangledNames_please'' @ ''Context'')
                          (codeNamespace @ ''.'' @ behavior_GetName b @ ''.prototype.'' @
                           ''UNKNOWN_FUNCTION_fix_behaviorMethodMangledNames_please'')
                          (snd (runtimeBehaviorMethodsCode_loop ext b codeNamespace names rt before ([], includeFiles))) rt))) \<and>
     fst (GenerateRuntimeBehaviorCompleteCode ext extensionName b codeNamespace names
           includeFiles rt) =
       RuntimeBehavior_module
         (later_passes 1 (module_substitutions ext extensionName b codeNamespace names includeFiles rt)
            extensionName)
         (later_passes 2 (module_substitutions ext extensionName b codeNamespace names includeFiles rt)
            (behavior_GetName b))
         (later_passes 3 (module_substitutions ext extensionName b codeNamespace names includeFiles rt)
            (behavior_GetFullName b))
         (later_passes 4 (module_substitutions ext extensionName b codeNamespace names includeFiles rt)
            (behavior_GetName b))
         (later_passes 5 (module_substitutions ext extensionName b codeNamespace names includeFiles rt)
            codeNamespace)
         (later_passes 6 (module_substitutions ext extensionName b codeNamespace names includeFiles rt)
            (runtimeBehaviorDataInitializationCode_loop ext (GetPropertyDescriptors b) []))
         (later_passes 7 (module_substitutions ext extensionName b codeNamespace names includeFiles rt)
            (updateFromBehaviorCode_loop b codeNamespace (GetPropertyDescriptors b) []))
         (FindAndReplace
            (fst (runtimeBehaviorMethodsCode_loop ext b codeNamespace names rt before ([], includeFiles)) @
            fst (GenerateBehaviorEventsFunctionCode ext f
                   (codeNamespace @ ''.'' @ behavior_GetName b @ ''.prototype.'' @
                    ''UNKNOWN_FUNCTION_fix_behaviorMethodMangledNames_please'' @ ''Context'')
                   (codeNamespace @ ''.'' @ behavior_GetName b @ ''.prototype.'' @
                    ''UNKNOWN_FUNCTION_fix_behaviorMethodMangledNames_please'')
                   (snd (runtimeBehaviorMethodsCode_loop ext b codeNamespace names rt before ([], includeFiles))) rt) @
            fst (runtimeBehaviorMethodsCode_loop ext b codeNamespace names rt after
                   ([], snd (GenerateBehaviorEventsFunctionCode ext f
                               (codeNamespace @ ''.'' @ behavior_GetName b @ ''.prototype.'' @
                                ''UNKNOWN_FUNCTION_fix_behaviorMethodMangledNames_please'' @ ''Context'')
                               (codeNamespace @ ''.'' @ behavior_GetName b @ ''.prototype.'' @
                                ''UNKNOWN_FUNCTION_fix_behaviorMethodMangledNames_please'')
                               (snd (runtimeBehaviorMethodsCode_loop ext b codeNamespace names rt before ([], includeFiles))) rt))))
            ''METHODS_CODE''
            (runtimeBehaviorPropertyMethodsCode_loop ext b codeNamespace (GetPropertyDescriptors b) []))
         (runtimeBehaviorPropertyMethodsCode_loop ext b codeNamespace (GetPropertyDescriptors b) []) \<and>
     (\<not> sublist ''METHODS_CODE''
          (fst (runtimeBehaviorMethodsCode_loop ext b codeNamespace names rt (GetEventsFunctions b) ([], includeFiles))) \<longrightarrow>
      FindAndReplace
        (fst (runtimeBehaviorMethodsCode_loop ext b codeNamespace names rt (GetEventsFunctions b) ([], includeFiles)))
        ''METHODS_CODE''
        (runtimeBehaviorPropertyMethodsCode_loop ext b codeNamespace (GetPropertyDescriptors b) []) =
      fst (runtimeBehaviorMethodsCode_loop ext b codeNamespace names rt (GetEventsFunctions b) ([], includeFiles))) \<and>
     snd (GenerateRuntimeBehaviorCompleteCode ext extensionName b codeNamespace names
            includeFiles rt) =
       snd (runtimeBehaviorMethodsCode_loop ext b codeNamespace names rt (GetEventsFunctions b) ([], includeFiles)) \<and>
     GenerateRuntimeBehaviorCompleteCode ext extensionName b codeNamespace names includeFiles rt =
       GenerateRuntimeBehaviorCompleteCode ext extensionName b codeNamespace
         (\<lambda>name. case names name of
                    None \<Rightarrow> Some ''UNKNOWN_FUNCTION_fix_behaviorMethodMangledNames_please''
                  | Some mangled \<Rightarrow> Some mangled)
         includeFiles rt"
proof -
  have name: "functionName_of names f = ''UNKNOWN_FUNCTION_fix_behaviorMethodMangledNames_please''"
    using unmapped by (simp add: functionName_of_def)
  have built: "fst (runtimeBehaviorMethodsCode_loop ext b codeNamespace names rt (GetEventsFunctions b) ([], includeFiles)) =
       fst (runtimeBehaviorMethodsCode_loop ext b codeNamespace names rt before ([], includeFiles)) @
       fst (GenerateBehaviorEventsFunctionCode ext f
              (codeNamespace @ ''.'' @ behavior_GetName b @ ''.prototype.'' @
               ''UNKNOWN_FUNCTION_fix_behaviorMethodMangledNames_please'' @ ''Context'')
              (codeNamespace @ ''.'' @ behavior_GetName b @ ''.prototype.'' @
               ''UNKNOWN_FUNCTION_fix_behaviorMethodMangledNames_please'')
              (snd (runtimeBehaviorMethodsCode_loop ext b codeNamespace names rt before ([], includeFiles))) rt) @
       fst (runtimeBehaviorMethodsCode_loop ext b codeNamespace names rt after
              ([], snd (GenerateBehaviorEventsFunctionCode ext f
                          (codeNamespace @ ''.'' @ behavior_GetName b @ ''.prototype.'' @
                           ''UNKNOWN_FUNCTION_fix_behaviorMethodMangledNames_please'' @ ''Context'')
                          (codeNamespace @ ''.'' @ behavior_GetName b @ ''.prototype.'' @
                           ''UNKNOWN_FUNCTION_fix_behaviorMethodMangledNames_please'')
                          (snd (runtimeBehaviorMethodsCode_loop ext b codeNamespace names rt before ([], includeFiles))) rt)))"
    unfolding events_functions runtimeBehaviorMethodsCode_loop_split
    by (simp add: runtimeBehaviorMethodsCode_step_empty name)
  have module: "fst (GenerateRuntimeBehaviorCompleteCode ext extensionName b codeNamespace names
           includeFiles rt) =
       RuntimeBehavior_module
         (later_passes 1 (module_substitutions ext extensionName b codeNamespace names includeFiles rt)
            extensionName)
         (later_passes 2 (module_substitutions ext extensionName b codeNamespace names includeFiles rt)
            (behavior_GetName b))
         (later_passes 3 (module_substitutions ext extensionName b codeNamespace names includeFiles rt)
            (behavior_GetFullName b))
         (later_passes 4 (module_substitutions ext extensionName b codeNamespace names includeFiles rt)
            (behavior_GetName b))
         (later_passes 5 (module_substitutions ext extensionName b codeNamespace names includeFiles rt)
            codeNamespace)
         (later_passes 6 (module_substitutions ext extensionName b codeNamespace names includeFiles rt)
            (runtimeBehaviorDataInitializationCode_loop ext (GetPropertyDescriptors b) []))
         (later_passes 7 (module_substitutions ext extensionName b codeNamespace names includeFiles rt)
            (updateFromBehaviorCode_loop b codeNamespace (GetPropertyDescriptors b) []))
         (FindAndReplace
            (fst (runtimeBehaviorMethodsCode_loop ext b codeNamespace names rt before ([], includeFiles)) @
            fst (GenerateBehaviorEventsFunctionCode ext f
                   (codeNamespace @ ''.'' @ behavior_GetName b @ ''.prototype.'' @
                    ''UNKNOWN_FUNCTION_fix_behaviorMethodMangledNames_please'' @ ''Context'')
                   (codeNamespace @ ''.'' @ behavior_GetName b @ ''.prototype.'' @
                    ''UNKNOWN_FUNCTION_fix_behaviorMethodMangledNames_please'')
                   (snd (runtimeBehaviorMethodsCode_loop ext b codeNamespace names rt before ([], includeFiles))) rt) @
            fst (runtimeBehaviorMethodsCode_loop ext b codeNamespace names rt after
                   ([], snd (GenerateBehaviorEventsFunctionCode ext f
                               (codeNamespace @ ''.'' @ behavior_GetName b @ ''.prototype.'' @
                                ''UNKNOWN_FUNCTION_fix_behaviorMethodMangledNames_please'' @ ''Context'')
                               (codeNamespace @ ''.'' @ behavior_GetName b @ ''.prototype.'' @
                                ''UNKNOWN_FUNCTION_fix_behaviorMethodMangledNames_please'')
                               (snd (runtimeBehaviorMethodsCode_loop ext b codeNamespace names rt before ([], includeFiles))) rt))))
            ''METHODS_CODE''
            (runtimeBehaviorPropertyMethodsCode_loop ext b codeNamespace (GetPropertyDescriptors b) []))
         (runtimeBehaviorPropertyMethodsCode_loop ext b codeNamespace (GetPropertyDescriptors b) [])"
    unfolding built [symmetric] by (rule GenerateRuntimeBehaviorCompleteCode_text)
  have verbatim: "\<not> sublist ''METHODS_CODE''
          (fst (runtimeBehaviorMethodsCode_loop ext b codeNamespace names rt (GetEventsFunctions b) ([], includeFiles))) \<longrightarrow>
      FindAndReplace
        (fst (runtimeBehaviorMethodsCode_loop ext b codeNamespace names rt (GetEventsFunctions b) ([], includeFiles)))
        ''METHODS_CODE''
        (runtimeBehaviorPropertyMethodsCode_loop ext b codeNamespace (GetPropertyDescriptors b) []) =
      fst (runtimeBehaviorMethodsCode_loop ext b codeNamespace names rt (GetEventsFunctions b) ([], includeFiles))"
    by (intro impI) (rule FindAndReplace_absent)
  have include_set: "snd (GenerateRuntimeBehaviorCompleteCode ext extensionName b codeNamespace names
            includeFiles rt) =
       snd (runtimeBehaviorMethodsCode_loop ext b codeNamespace names rt (GetEventsFunctions b) ([], includeFiles))"
    by (simp add: GenerateRuntimeBehaviorCompleteCode_def Let_def)
  have whole: "GenerateRuntimeBehaviorCompleteCode ext extensionName b codeNamespace names
         includeFiles rt =
       GenerateRuntimeBehaviorCompleteCode ext extensionName b codeNamespace
         (\<lambda>name. case names name of
                    None \<Rightarrow> Some ''UNKNOWN_FUNCTION_fix_behaviorMethodMangledNames_please''
                  | Some mangled \<Rightarrow> Some mangled)
         includeFiles rt"
    unfolding GenerateRuntimeBehaviorCompleteCode_def
    using runtimeBehaviorMethodsCode_loop_cong
      [of "GetEventsFunctions b" names
          "\<lambda>name. case names name of
                    None \<Rightarrow> Some ''UNKNOWN_FUNCTION_fix_behaviorMethodMangledNames_please''
                  | Some mangled \<Rightarrow> Some mangled"
          ext b codeNamespace rt "([], includeFiles)"]
    by (simp add: functionName_of_completed)
  show ?thesis
    by (intro conjI)
       (rule name, rule built, rule module, rule verbatim, rule include_set, rule whole)
qed

theorem unmapped_function_gets_sentinel_name_witness:
  \<open>fst (runtimeBehaviorMethodsCode_loop sample_collaborators
          \<lparr>behavior_GetName = ''Health'', behavior_GetFullName = ''Health points'',
           GetPropertyDescriptors = [],
           GetEventsFunctions =
             [\<lparr>function_GetName = ''Heal'', function_events = []\<rparr>,
              \<lparr>function_GetName = ''Hurt'', function_events = []\<rparr>,
              \<lparr>function_GetName = ''Rest'', function_events = []\<rparr>]\<rparr>
          ''gdjs.evtsExt'' [''Heal'' \<mapsto> ''doHeal'', ''Rest'' \<mapsto> ''doRest''] True
          [\<lparr>function_GetName = ''Heal'', function_events = []\<rparr>,
           \<lparr>function_GetName = ''Hurt'', function_events = []\<rparr>,
           \<lparr>function_GetName = ''Rest'', function_events = []\<rparr>] ([], {})) =
     ''\<newline>gdjs.evtsExt.Health.prototype.doHeal = function() {};'' @
     ''\<newline>gdjs.evtsExt.Health.prototype.UNKNOWN_FUNCTION_fix_behaviorMethodMangledNames_please = function() {};'' @
     ''\<newline>gdjs.evtsExt.Health.prototype.doRest = function() {};'' \<and>
   GenerateRuntimeBehaviorCompleteCode sample_collaborators ''Platformer''
     \<lparr>behavior_GetName = ''Health'', behavior_GetFullName = ''Health points'',
      GetPropertyDescriptors = [],
      GetEventsFunctions =
        [\<lparr>function_GetName = ''Heal'', function_events = []\<rparr>,
         \<lparr>function_GetName = ''Hurt'', function_events = []\<rparr>,
         \<lparr>function_GetName = ''Rest'', function_events = []\<rparr>]\<rparr>
     ''gdjs.evtsExt'' [''Heal'' \<mapsto> ''doHeal'', ''Rest'' \<mapsto> ''doRest''] {} True =
   (RuntimeBehavior_module ''Platformer'' ''Health'' ''Health points'' ''Health''
      ''gdjs.evtsExt'' [] []
      (''\<newline>gdjs.evtsExt.Health.prototype.doHeal = function() {};'' @
       ''\<newline>gdjs.evtsExt.Health.prototype.UNKNOWN_FUNCTION_fix_behaviorMethodMangledNames_please = function() {};'' @
       ''\<newline>gdjs.evtsExt.Health.prototype.doRest = function() {};'')
      [],
    {''gdjs.evtsExt.Health.prototype.doHealContext.js'',
     ''gdjs.evtsExt.Health.prototype.UNKNOWN_FUNCTION_fix_behaviorMethodMangledNames_pleaseContext.js'',
     ''gdjs.evtsExt.Health.prototype.doRestContext.js''})\<close>
  using unmapped_function_gets_sentinel_name
    [where b = "\<lparr>behavior_GetName = ''Health'', behavior_GetFullName = ''Health points'',
                 GetPropertyDescriptors = [],
                 GetEventsFunctions =
                   [\<lparr>function_GetName = ''Heal'', function_events = []\<rparr>,
                    \<lparr>function_GetName = ''Hurt'', function_events = []\<rparr>,
                    \<lparr>function_GetName = ''Rest'', function_events = []\<rparr>]\<rparr>"
       and before = "[\<lparr>function_GetName = ''Heal'', function_events = []\<rparr>]"
       and f = "\<lparr>function_GetName = ''Hurt'', function_events = []\<rparr>"
       and after = "[\<lparr>function_GetName = ''Rest'', function_events = []\<rparr>]"
       and names = "[''Heal'' \<mapsto> ''doHeal'', ''Rest'' \<mapsto> ''doRest'']"
       and ext = sample_collaborators and extensionName = "''Platformer''"
       and codeNamespace = "''gdjs.evtsExt''" and includeFiles = "{}" and rt = True]
  by (simp add: sample_collaborators_def runtimeBehaviorMethodsCode_step_def
      functionName_of_def later_passes_def module_substitutions_def
      RuntimeBehavior_substitutions_def FindAndReplace_chain_def prod_eq_iff insert_commute)




section \<open>Claims about the include list\<close>

text \<open>
  C7. Inserting a path that is already in the include list leaves the list unchanged;
  inserting an absent path appends it at the end. Hence any number \<open>n + 1\<close> of insertions
  of the same path gives the list of the first insertion (the path stays where the
  first insertion put it), a duplicate-free list stays duplicate-free, and then the
  path occurs exactly once; from the empty list the result has length one.
\<close>

theorem InsertUnique_noop_or_append:
  "(str \<in> set container \<longrightarrow> InsertUnique container str = container) \<and>
   (str \<notin> set container \<longrightarrow> InsertUnique container str = container @ [str]) \<and>
   InsertUnique_times (Suc n) container str = InsertUnique container str \<and>
   InsertUnique_times (Suc n) [] str = [str] \<and>
   (distinct container \<longrightarrow>
      distinct (InsertUnique_times (Suc n) container str) \<and>
      count_list (InsertUnique_times (Suc n) container str) str = 1)"
proof -
  have "InsertUnique_times (Suc n) [] str = [str]"
    by (simp only: InsertUnique_times_Suc) (simp add: InsertUnique_def)
  moreover have "distinct container \<longrightarrow>
      distinct (InsertUnique_times (Suc n) container str) \<and>
      count_list (InsertUnique_times (Suc n) container str) str = 1"
    by (simp only: InsertUnique_times_Suc)
       (simp add: InsertUnique_distinct InsertUnique_mem count_list_distinct_mem)
  ultimately show ?thesis
    using InsertUnique_present InsertUnique_absent InsertUnique_times_Suc by blast
qed

theorem InsertUnique_noop_or_append_witness:
  "InsertUnique [''gd.js'', ''layer.js''] ''gd.js'' = [''gd.js'', ''layer.js''] \<and>
   InsertUnique [''gd.js'', ''layer.js''] ''timer.js'' = [''gd.js'', ''layer.js'', ''timer.js''] \<and>
   InsertUnique_times 3 [''gd.js'', ''layer.js''] ''gd.js'' = [''gd.js'', ''layer.js''] \<and>
   count_list (InsertUnique_times 3 [''gd.js'', ''layer.js''] ''timer.js'') ''timer.js'' = 1"
  using InsertUnique_noop_or_append [of "''gd.js''" "[''gd.js'', ''layer.js'']" 2]
        InsertUnique_noop_or_append [of "''timer.js''" "[''gd.js'', ''layer.js'']" 2]
  by (simp add: numeral_3_eq_3 InsertUnique_def)

text \<open>
  C8. For every include list and both flags, \<open>RemoveIncludes\<close> returns the list of the
  paths that contain none of the markers of the flags that are set, in their original
  order: with the pixi flag the markers are "pixi-renderer" and "pixi-filter", with the
  cocos flag "cocos-renderer" and "cocos-shader".
\<close>

theorem RemoveIncludes_filter:
  "RemoveIncludes pixiRenderers cocosRenderers includesFiles =
     filter (\<lambda>p. \<not> (pixiRenderers \<and> (sublist ''pixi-renderer'' p \<or> sublist ''pixi-filter'' p)) \<and>
                 \<not> (cocosRenderers \<and> (sublist ''cocos-renderer'' p \<or> sublist ''cocos-shader'' p)))
       includesFiles"
  by (rule RemoveIncludes_eq_filter)

theorem RemoveIncludes_filter_witness:
  "RemoveIncludes False True
     [''gd.js'', ''cocos-renderers/cocos-tools.js'', ''pixi-renderers/pixi.js'',
      ''Extensions/x-cocos-shader.js'', ''code0.js''] =
   [''gd.js'', ''pixi-renderers/pixi.js'', ''code0.js'']"
  unfolding RemoveIncludes_filter by (simp add: sublist_code)

section \<open>Claims about the preview export\<close>

text \<open>
  C9. In a preview export the include list is filtered for the target before the options
  document is built: whenever a run hands an options document to the data file, the
  document is the one built from a list that \<open>RemoveIncludes\<close> has filtered with the
  cocos flag, its \<open>scriptFile\<close> paths are that list, and none of them contains
  "cocos-renderer" or "cocos-shader".
\<close>

theorem preview_scriptFiles_are_filtered:
  assumes "runtimeGameOptions (ExportProjectForPixiPreview env codeOutputDir options) =
           Some document"
  shows "(\<exists>includesFiles.
            document = runtimeGameOptions_of options (RemoveIncludes False True includesFiles) \<and>
            scriptFile_paths document = RemoveIncludes False True includesFiles) \<and>
         (\<forall>p \<in> set (scriptFile_paths document).
            \<not> sublist ''cocos-renderer'' p \<and> \<not> sublist ''cocos-shader'' p)"
proof -
  obtain includesFiles where
    doc: "document = runtimeGameOptions_of options (RemoveIncludes False True includesFiles)"
    using ExportProjectForPixiPreview_document [OF assms] by blast
  have paths: "scriptFile_paths document = RemoveIncludes False True includesFiles"
    unfolding doc by (rule scriptFile_paths_runtimeGameOptions_of)
  have "\<forall>p \<in> set (scriptFile_paths document).
          \<not> sublist ''cocos-renderer'' p \<and> \<not> sublist ''cocos-shader'' p"
    unfolding paths by (simp add: RemoveIncludes_eq_filter)
  with doc paths show ?thesis by blast
qed

theorem preview_scriptFiles_are_filtered_witness:
  "runtimeGameOptions
     (ExportProjectForPixiPreview sample_environment ''/tmp/code'' sample_options) \<noteq> None \<and>
   ''Extensions/x/a-cocos-renderer.js'' \<notin>
     set (scriptFile_paths (the (runtimeGameOptions
       (ExportProjectForPixiPreview sample_environment ''/tmp/code'' sample_options))))"
proof -
  have some: "runtimeGameOptions
      (ExportProjectForPixiPreview sample_environment ''/tmp/code'' sample_options) \<noteq> None"
    by (simp add: ExportProjectForPixiPreview_def ExportEventsCode_def
        sample_environment_def Let_def)
  then have "runtimeGameOptions
      (ExportProjectForPixiPreview sample_environment ''/tmp/code'' sample_options) =
      Some (the (runtimeGameOptions
        (ExportProjectForPixiPreview sample_environment ''/tmp/code'' sample_options)))"
    by simp
  from preview_scriptFiles_are_filtered [OF this]
  have "\<forall>p \<in> set (scriptFile_paths (the (runtimeGameOptions
          (ExportProjectForPixiPreview sample_environment ''/tmp/code'' sample_options)))).
          \<not> sublist ''cocos-renderer'' p \<and> \<not> sublist ''cocos-shader'' p"
    by blast
  moreover have "sublist ''cocos-renderer'' ''Extensions/x/a-cocos-renderer.js''"
    by (simp add: sublist_code)
  ultimately show ?thesis using some by blast
qed



end
